theory Spec2Isabelle
  imports Main
begin

section \<open>The menu engine of jumpbox as state-passing functions\<close>

text \<open>
  The Python objects (\<^verbatim>\<open>Jumpbox\<close> menus and \<^verbatim>\<open>MenuItem\<close> options) live in a store and
  are named by references, because the program compares options by identity
  (\<^verbatim>\<open>self.items[-1] is self.exit_item\<close>) and mutates objects that several places hold.
  Every method takes the store and returns the store it leaves behind together with
  either its return value or the Python exception it raised; an exception does not undo
  the assignments made before it.

  The curses library and \<^verbatim>\<open>os.system\<close> are outside the repository: each call to them is
  appended to a trace, in program order, and is taken to succeed.  Dereferencing
  \<^verbatim>\<open>None\<close>, indexing a list out of range and reading an unbound local are the program's
  own failures and are modelled as raises.
\<close>

datatype py_error = AttributeError | IndexError | UnboundLocalError

datatype 'a outcome = Returns 'a | Raises py_error

type_synonym menu_ref = nat
type_synonym item_ref = nat

datatype attr = A_NORMAL | A_BOLD | A_UNDERLINE | Color_pair int

datatype call =
    Initscr
  | Endwin
  | Newpad menu_ref int int
  | Init_pair int int int
  | Curs_set int
  | Stdscr_refresh
  | Stdscr_erase
  | Border menu_ref
  | Addstr menu_ref int int string "attr option"
  | Pad_refresh menu_ref int int int int int int
  | Pad_clear menu_ref
  | Pad_resize menu_ref int int
  | Def_prog_mode
  | Reset_prog_mode
  | Os_system string

text \<open>The option classes of \<^verbatim>\<open>jumpbox.py\<close>, \<^verbatim>\<open>submenu_item.py\<close> and \<^verbatim>\<open>external_item.py\<close>.
  A \<^verbatim>\<open>SubmenuItem\<close> carries its \<^verbatim>\<open>submenu\<close> attribute.\<close>

datatype item_class = MenuItem | ExitItem | SubmenuItem "menu_ref option" | ExternalItem

record item =
  cls :: item_class
  item_text :: string
  menu :: "menu_ref option"
  item_should_exit :: bool

record jumpbox =
  title :: "string option"
  subtitle :: "string option"
  show_exit_option :: bool
  screen :: "(int \<times> int) option"
  highlight :: "attr option"
  normal :: "attr option"
  term_y :: int
  term_x :: int
  items :: "item_ref list"
  current_option :: int
  selected_option :: int
  returned_value :: "string option"
  should_exit :: bool
  parent :: "menu_ref option"
  previous_active_menu :: "menu_ref option"
  exit_item :: item_ref
  running :: bool

text \<open>
  The store and the process-wide state: the two class attributes of \<^verbatim>\<open>Jumpbox\<close>
  (\<^verbatim>\<open>currently_active_menu\<close>; \<^verbatim>\<open>stdscr\<close>, here whether it holds the standard window),
  the size \<^verbatim>\<open>(rows, columns)\<close> the standard window reports, the keys \<^verbatim>\<open>getch\<close> will
  deliver, the trace of library calls, the string \<^verbatim>\<open>version.__version__\<close> (its module
  is not part of the sources) and whether \<^verbatim>\<open>platform.system()\<close> is Windows.
\<close>

record world =
  menus :: "menu_ref \<Rightarrow> jumpbox"
  objs :: "item_ref \<Rightarrow> item"
  next_menu :: nat
  next_item :: nat
  currently_active_menu :: "menu_ref option"
  stdscr :: bool
  terminal :: "int \<times> int"
  keys :: "int list"
  calls :: "call list"
  version :: string
  on_windows :: bool

definition emit :: "call \<Rightarrow> world \<Rightarrow> world" where
  "emit c w = w\<lparr>calls := calls w @ [c]\<rparr>"

definition upd_menu :: "menu_ref \<Rightarrow> (jumpbox \<Rightarrow> jumpbox) \<Rightarrow> world \<Rightarrow> world" where
  "upd_menu m f w = w\<lparr>menus := (menus w)(m := f (menus w m))\<rparr>"

definition upd_item :: "item_ref \<Rightarrow> (item \<Rightarrow> item) \<Rightarrow> world \<Rightarrow> world" where
  "upd_item i f w = w\<lparr>objs := (objs w)(i := f (objs w i))\<rparr>"

subsection \<open>Python primitives\<close>

text \<open>\<^verbatim>\<open>xs[i]\<close>: a negative index counts from the end; \<open>None\<close> stands for IndexError.\<close>

definition py_index :: "'a list \<Rightarrow> int \<Rightarrow> 'a option" where
  "py_index xs i =
     (if 0 \<le> i \<and> i < int (length xs) then Some (xs ! nat i)
      else if i < 0 \<and> - int (length xs) \<le> i then Some (xs ! nat (int (length xs) + i))
      else None)"

text \<open>\<^verbatim>\<open>"%d" % n\<close> and \<^verbatim>\<open>"%s" % s\<close> (which prints \<^verbatim>\<open>None\<close> as the word None).\<close>

fun digits :: "nat \<Rightarrow> string" where
  "digits n = (if n < 10 then [''0123456789'' ! n] else digits (n div 10) @ [''0123456789'' ! (n mod 10)])"

definition str_int :: "int \<Rightarrow> string" where
  "str_int i = (if i < 0 then CHR ''-'' # digits (nat (- i)) else digits (nat i))"

definition str_opt :: "string option \<Rightarrow> string" where
  "str_opt s = (case s of None \<Rightarrow> ''None'' | Some t \<Rightarrow> t)"

text \<open>\<^verbatim>\<open>enumerate(xs)\<close>.\<close>

definition enumerate_py :: "'a list \<Rightarrow> (int \<times> 'a) list" where
  "enumerate_py xs = zip (map int [0..<length xs]) xs"

text \<open>The key codes of curses and \<^verbatim>\<open>ord\<close> of the characters the program names.\<close>

definition KEY_DOWN :: int where "KEY_DOWN = 258"
definition KEY_UP :: int where "KEY_UP = 259"
definition KEY_LEFT :: int where "KEY_LEFT = 260"
definition KEY_RIGHT :: int where "KEY_RIGHT = 261"
definition KEY_RESIZE :: int where "KEY_RESIZE = 410"
definition ord_0 :: int where "ord_0 = 48"
definition ord_1 :: int where "ord_1 = 49"
definition ord_9 :: int where "ord_9 = 57"
definition ord_newline :: int where "ord_newline = 10"

subsection \<open>Constructors\<close>

text \<open>\<^verbatim>\<open>MenuItem.__init__\<close> and its subclasses: a new object in the store.\<close>

definition new_item :: "item_class \<Rightarrow> string \<Rightarrow> menu_ref option \<Rightarrow> bool \<Rightarrow> world \<Rightarrow> item_ref \<times> world" where
  "new_item c t m e w =
     (next_item w,
      w\<lparr>objs := (objs w)(next_item w := \<lparr>cls = c, item_text = t, menu = m, item_should_exit = e\<rparr>),
        next_item := Suc (next_item w)\<rparr>)"

definition MenuItem_init :: "string \<Rightarrow> menu_ref option \<Rightarrow> bool \<Rightarrow> world \<Rightarrow> item_ref \<times> world" where
  "MenuItem_init t m e w = new_item MenuItem t m e w"

definition ExitItem_init :: "string \<Rightarrow> menu_ref option \<Rightarrow> world \<Rightarrow> item_ref \<times> world" where
  "ExitItem_init t m w = new_item ExitItem t m True w"

definition ExternalItem_init :: "string \<Rightarrow> menu_ref option \<Rightarrow> bool \<Rightarrow> world \<Rightarrow> item_ref \<times> world" where
  "ExternalItem_init t m e w = new_item ExternalItem t m e w"

text \<open>\<^verbatim>\<open>SubmenuItem.__init__\<close>: with a menu given, the submenu's parent is set; a
  \<^verbatim>\<open>None\<close> submenu then has no attribute \<^verbatim>\<open>parent\<close> to set.\<close>

definition SubmenuItem_init ::
  "string \<Rightarrow> menu_ref option \<Rightarrow> menu_ref option \<Rightarrow> bool \<Rightarrow> world \<Rightarrow> item_ref outcome \<times> world" where
  "SubmenuItem_init t sub m e w =
     (let (i, w1) = new_item (SubmenuItem sub) t m e w
      in case m of
           None \<Rightarrow> (Returns i, w1)
         | Some p \<Rightarrow>
             (case sub of
                None \<Rightarrow> (Raises AttributeError, w1)
              | Some c \<Rightarrow> (Returns i, upd_menu c (\<lambda>j. j\<lparr>parent := Some p\<rparr>) w1)))"

text \<open>\<^verbatim>\<open>Jumpbox.__init__\<close>.\<close>

definition Jumpbox_init :: "string option \<Rightarrow> string option \<Rightarrow> bool \<Rightarrow> world \<Rightarrow> menu_ref \<times> world" where
  "Jumpbox_init t s e w =
     (let m = next_menu w;
          w1 = w\<lparr>next_menu := Suc m\<rparr>;
          (x, w2) = ExitItem_init ''Exit'' (Some m) w1
      in (m, w2\<lparr>menus := (menus w2)(m :=
            \<lparr>title = t, subtitle = s, show_exit_option = e, screen = None, highlight = None,
             normal = None, term_y = 0, term_x = 0, items = [], current_option = 0,
             selected_option = - 1, returned_value = None, should_exit = False, parent = None,
             previous_active_menu = None, exit_item = x, running = False\<rparr>)\<rparr>))"

subsection \<open>Properties and list maintenance of \<^verbatim>\<open>Jumpbox\<close>\<close>

definition current_item :: "menu_ref \<Rightarrow> world \<Rightarrow> item_ref option outcome" where
  "current_item m w =
     (if items (menus w m) \<noteq> []
      then (case py_index (items (menus w m)) (current_option (menus w m)) of
              None \<Rightarrow> Raises IndexError
            | Some i \<Rightarrow> Returns (Some i))
      else Returns None)"

definition selected_item :: "menu_ref \<Rightarrow> world \<Rightarrow> item_ref option outcome" where
  "selected_item m w =
     (if items (menus w m) \<noteq> [] \<and> selected_option (menus w m) \<noteq> - 1
      then (case py_index (items (menus w m)) (current_option (menus w m)) of
              None \<Rightarrow> Raises IndexError
            | Some i \<Rightarrow> Returns (Some i))
      else Returns None)"

definition reset_menu :: "menu_ref \<Rightarrow> world \<Rightarrow> world" where
  "reset_menu m w = upd_menu m (\<lambda>j. j\<lparr>items := []\<rparr>) w"

definition add_exit :: "menu_ref \<Rightarrow> world \<Rightarrow> bool \<times> world" where
  "add_exit m w =
     (if items (menus w m) \<noteq> []
      then (if last (items (menus w m)) \<noteq> exit_item (menus w m)
            then (True, upd_menu m (\<lambda>j. j\<lparr>items := items j @ [exit_item j]\<rparr>) w)
            else (False, w))
      else (False, w))"

definition remove_exit :: "menu_ref \<Rightarrow> world \<Rightarrow> bool \<times> world" where
  "remove_exit m w =
     (if items (menus w m) \<noteq> []
      then (if last (items (menus w m)) = exit_item (menus w m)
            then (True, upd_menu m (\<lambda>j. j\<lparr>items := butlast (items j)\<rparr>) w)
            else (False, w))
      else (False, w))"

definition exit :: "menu_ref \<Rightarrow> world \<Rightarrow> world" where
  "exit m w = upd_menu m (\<lambda>j. j\<lparr>should_exit := True\<rparr>) w"

subsection \<open>Rendering\<close>

text \<open>\<^verbatim>\<open>MenuItem.show\<close> and \<^verbatim>\<open>ExitItem.show\<close>; the latter assigns \<^verbatim>\<open>self.text\<close> first.\<close>

definition MenuItem_show :: "item_ref \<Rightarrow> int \<Rightarrow> world \<Rightarrow> string \<times> world" where
  "MenuItem_show i index w = (str_int (index + 1) @ '' - '' @ item_text (objs w i), w)"

definition ExitItem_show :: "item_ref \<Rightarrow> int \<Rightarrow> world \<Rightarrow> string \<times> world" where
  "ExitItem_show i index w =
     (let t = (case menu (objs w i) of
                 None \<Rightarrow> ''Exit''
               | Some m \<Rightarrow>
                   (case parent (menus w m) of
                      None \<Rightarrow> ''Exit''
                    | Some p \<Rightarrow> ''Return to '' @ str_opt (title (menus w p)) @ '' menu''))
      in MenuItem_show i index (upd_item i (\<lambda>x. x\<lparr>item_text := t\<rparr>) w))"

definition item_show :: "item_ref \<Rightarrow> int \<Rightarrow> world \<Rightarrow> string \<times> world" where
  "item_show i index w =
     (case cls (objs w i) of
        ExitItem \<Rightarrow> ExitItem_show i index w
      | _ \<Rightarrow> MenuItem_show i index w)"

text \<open>The \<^verbatim>\<open>for index, item in enumerate(self.items)\<close> loop of \<^verbatim>\<open>draw\<close>.  The third
  argument is the local \<^verbatim>\<open>index\<close>: unbound (\<open>None\<close>) until the first iteration binds it.\<close>

fun draw_items :: "menu_ref \<Rightarrow> (int \<times> item_ref) list \<Rightarrow> int option \<Rightarrow> world \<Rightarrow> int option \<times> world" where
  "draw_items m [] idx w = (idx, w)"
| "draw_items m ((index, i) # rest) idx w =
     (let text_style = (if current_option (menus w m) = index
                        then highlight (menus w m) else normal (menus w m));
          (label, w1) = item_show i index w
      in draw_items m rest (Some index) (emit (Addstr m (index + 5) 4 label text_style) w1))"

definition top_row_of :: "int \<Rightarrow> int \<Rightarrow> int \<Rightarrow> int" where
  "top_row_of n y cur =
     (if n + 6 > y then (if y + cur < n + 6 then cur else n + 6 - y) else 0)"

definition draw :: "menu_ref \<Rightarrow> world \<Rightarrow> unit outcome \<times> world" where
  "draw m w =
     (case screen (menus w m) of
        None \<Rightarrow> (Raises AttributeError, w)
      | Some pad \<Rightarrow>
          (let w1 = emit (Border m) w;
               w2 = (case title (menus w1 m) of
                       None \<Rightarrow> w1
                     | Some t \<Rightarrow> emit (Addstr m 2 2 t (Some A_UNDERLINE)) w1);
               w3 = (case subtitle (menus w2 m) of
                       None \<Rightarrow> w2
                     | Some s \<Rightarrow> emit (Addstr m 4 2 s (Some A_BOLD)) w2);
               (idx, w4) = draw_items m (enumerate_py (items (menus w3 m))) None w3
           in case idx of
                None \<Rightarrow> (Raises UnboundLocalError, w4)
              | Some index \<Rightarrow>
                  (let w5 = emit (Addstr m (index + 5)
                                   (term_x (menus w4 m) - int (length (version w4)) - 2)
                                   (version w4) (Some A_BOLD)) w4
                   in if \<not> stdscr w5 then (Raises AttributeError, w5)
                      else (let (y, x) = terminal w5;
                                w6 = upd_menu m (\<lambda>j. j\<lparr>term_y := y, term_x := x\<rparr>) w5;
                                top_row = top_row_of (int (length (items (menus w6 m)))) (term_y (menus w6 m))
                                            (current_option (menus w6 m))
                            in (Returns (),
                                emit (Pad_refresh m top_row 0 0 0 (term_y (menus w6 m) - 1)
                                        (term_x (menus w6 m) - 1)) w6)))))"

definition clear_screen :: "menu_ref \<Rightarrow> world \<Rightarrow> unit outcome \<times> world" where
  "clear_screen m w =
     (case screen (menus w m) of
        None \<Rightarrow> (Raises AttributeError, w)
      | Some pad \<Rightarrow>
          (let w1 = emit (Pad_clear m) w
           in if \<not> stdscr w1 then (Raises AttributeError, w1)
              else (Returns (), emit Stdscr_refresh (emit Stdscr_erase w1))))"

definition clear_terminal :: "world \<Rightarrow> world" where
  "clear_terminal w = (if on_windows w then emit (Os_system ''cls'') w else emit (Os_system ''reset'') w)"

definition set_up_colors :: "menu_ref \<Rightarrow> world \<Rightarrow> world" where
  "set_up_colors m w =
     upd_menu m (\<lambda>j. j\<lparr>highlight := Some (Color_pair 1), normal := Some A_NORMAL\<rparr>)
       (emit (Init_pair 1 0 7) w)"

subsection \<open>Mutation and cursor movement\<close>

definition append_item :: "menu_ref \<Rightarrow> item_ref \<Rightarrow> world \<Rightarrow> unit outcome \<times> world" where
  "append_item m i w =
     (let (did_remove, w1) = remove_exit m w;
          w2 = upd_item i (\<lambda>x. x\<lparr>menu := Some m\<rparr>) w1;
          w3 = upd_menu m (\<lambda>j. j\<lparr>items := items j @ [i]\<rparr>) w2;
          w4 = (if did_remove then snd (add_exit m w3) else w3)
      in case screen (menus w4 m) of
           None \<Rightarrow> (Returns (), w4)
         | Some (rows, cols) \<Rightarrow>
             (let w5 = upd_menu m (\<lambda>j. j\<lparr>term_y := rows, term_x := cols\<rparr>) w4;
                  n = int (length (items (menus w5 m)));
                  w6 = (if term_y (menus w5 m) < 6 + n
                        then emit (Pad_resize m (n + 6) (term_x (menus w5 m)))
                               (upd_menu m (\<lambda>j. j\<lparr>screen := Some (n + 6, term_x j)\<rparr>) w5)
                        else w5)
              in draw m w6))"

definition go_to :: "menu_ref \<Rightarrow> int \<Rightarrow> world \<Rightarrow> unit outcome \<times> world" where
  "go_to m option w = draw m (upd_menu m (\<lambda>j. j\<lparr>current_option := option\<rparr>) w)"

definition go_down :: "menu_ref \<Rightarrow> world \<Rightarrow> unit outcome \<times> world" where
  "go_down m w =
     draw m (if current_option (menus w m) < int (length (items (menus w m))) - 1
             then upd_menu m (\<lambda>j. j\<lparr>current_option := current_option j + 1\<rparr>) w
             else upd_menu m (\<lambda>j. j\<lparr>current_option := 0\<rparr>) w)"

definition go_up :: "menu_ref \<Rightarrow> world \<Rightarrow> unit outcome \<times> world" where
  "go_up m w =
     draw m (if current_option (menus w m) > 0
             then upd_menu m (\<lambda>j. j\<lparr>current_option := current_option j + - 1\<rparr>) w
             else upd_menu m (\<lambda>j. j\<lparr>current_option := int (length (items j)) - 1\<rparr>) w)"

subsection \<open>Sequencing\<close>

text \<open>A statement that follows another runs only when the first returned; \<open>None\<close> is
  a call that never returns (it waits for a key that does not come, or the fuel of the
  run loop below is used up).\<close>

definition and_then ::
  "'a outcome \<times> world \<Rightarrow> ('a \<Rightarrow> world \<Rightarrow> 'b outcome \<times> world) \<Rightarrow> 'b outcome \<times> world" where
  "and_then r f = (case r of (Returns x, w) \<Rightarrow> f x w | (Raises e, w) \<Rightarrow> (Raises e, w))"

definition and_then_o ::
  "('a outcome \<times> world) option \<Rightarrow> ('a \<Rightarrow> world \<Rightarrow> ('b outcome \<times> world) option)
     \<Rightarrow> ('b outcome \<times> world) option" where
  "and_then_o r f =
     (case r of
        None \<Rightarrow> None
      | Some (Returns x, w) \<Rightarrow> f x w
      | Some (Raises e, w) \<Rightarrow> Some (Raises e, w))"

subsection \<open>The option methods \<^verbatim>\<open>set_up\<close>, \<^verbatim>\<open>clean_up\<close> and \<^verbatim>\<open>get_return\<close>\<close>

text \<open>\<^verbatim>\<open>self.menu.clear_screen()\<close> of an option.\<close>

definition menu_clear_screen :: "item_ref \<Rightarrow> world \<Rightarrow> unit outcome \<times> world" where
  "menu_clear_screen i w =
     (case menu (objs w i) of
        None \<Rightarrow> (Raises AttributeError, w)
      | Some m \<Rightarrow> clear_screen m w)"

definition SubmenuItem_set_up :: "item_ref \<Rightarrow> world \<Rightarrow> unit outcome \<times> world" where
  "SubmenuItem_set_up i w = menu_clear_screen i (emit Def_prog_mode w)"

definition SubmenuItem_clean_up :: "item_ref \<Rightarrow> world \<Rightarrow> unit outcome \<times> world" where
  "SubmenuItem_clean_up i w =
     and_then (menu_clear_screen i w)
       (\<lambda>_ w1. (Returns (), emit (Curs_set 0) (emit (Curs_set 1) (emit Reset_prog_mode w1))))"

definition ExternalItem_set_up :: "item_ref \<Rightarrow> world \<Rightarrow> unit outcome \<times> world" where
  "ExternalItem_set_up i w = menu_clear_screen i (clear_terminal (emit Def_prog_mode w))"

definition ExternalItem_clean_up :: "item_ref \<Rightarrow> world \<Rightarrow> unit outcome \<times> world" where
  "ExternalItem_clean_up i w =
     and_then (menu_clear_screen i w)
       (\<lambda>_ w1. (Returns (), emit (Curs_set 0) (emit (Curs_set 1) (emit Reset_prog_mode w1))))"

definition item_set_up :: "item_ref \<Rightarrow> world \<Rightarrow> unit outcome \<times> world" where
  "item_set_up i w =
     (case cls (objs w i) of
        SubmenuItem sub \<Rightarrow> SubmenuItem_set_up i w
      | ExternalItem \<Rightarrow> ExternalItem_set_up i w
      | _ \<Rightarrow> (Returns (), w))"

definition item_clean_up :: "item_ref \<Rightarrow> world \<Rightarrow> unit outcome \<times> world" where
  "item_clean_up i w =
     (case cls (objs w i) of
        SubmenuItem sub \<Rightarrow> SubmenuItem_clean_up i w
      | ExternalItem \<Rightarrow> ExternalItem_clean_up i w
      | _ \<Rightarrow> (Returns (), w))"

definition MenuItem_get_return :: "item_ref \<Rightarrow> world \<Rightarrow> string option outcome \<times> world" where
  "MenuItem_get_return i w =
     (case menu (objs w i) of
        None \<Rightarrow> (Raises AttributeError, w)
      | Some m \<Rightarrow> (Returns (returned_value (menus w m)), w))"

definition item_get_return :: "item_ref \<Rightarrow> world \<Rightarrow> string option outcome \<times> world" where
  "item_get_return i w =
     (case cls (objs w i) of
        SubmenuItem sub \<Rightarrow>
          (case sub of
             None \<Rightarrow> (Raises AttributeError, w)
           | Some c \<Rightarrow> (Returns (returned_value (menus w c)), w))
      | _ \<Rightarrow> MenuItem_get_return i w)"

text \<open>\<^verbatim>\<open>self.selected_item.f\<close>: the property is read again at each use, and \<^verbatim>\<open>None\<close> has
  no attribute.\<close>

definition selected_item_attr :: "menu_ref \<Rightarrow> world \<Rightarrow> item_ref outcome \<times> world" where
  "selected_item_attr m w =
     (case selected_item m w of
        Raises e \<Rightarrow> (Raises e, w)
      | Returns None \<Rightarrow> (Raises AttributeError, w)
      | Returns (Some i) \<Rightarrow> (Returns i, w))"

subsection \<open>The run loop\<close>

text \<open>
  \<^verbatim>\<open>start\<close>, \<^verbatim>\<open>_wrap_start\<close>, \<^verbatim>\<open>_main_loop\<close>, \<^verbatim>\<open>process_user_input\<close>, \<^verbatim>\<open>select\<close> and the
  \<^verbatim>\<open>action\<close> of an option call one another: a submenu's loop runs inside the \<^verbatim>\<open>select\<close>
  of its parent, and a resize key runs \<^verbatim>\<open>_main_loop\<close> inside \<^verbatim>\<open>process_user_input\<close>.
  Every such cycle passes through the \<^verbatim>\<open>while\<close> loop of \<^verbatim>\<open>_main_loop\<close>.  The methods are
  therefore written over \<open>loop\<close>, the \<^verbatim>\<open>while\<close> loop they may enter, and the loop itself is
  defined by recursion on fuel: the number of iterations, nested ones included, it may
  still begin.  \<^verbatim>\<open>getch\<close> on an empty key list blocks.  The flag of \<open>main_loop\<close> says
  whether \<^verbatim>\<open>scr\<close> is given (\<^verbatim>\<open>curses.wrapper\<close> passes the standard window).
\<close>

type_synonym loop_fun = "menu_ref \<Rightarrow> world \<Rightarrow> (unit outcome \<times> world) option"

definition main_loop_with :: "loop_fun \<Rightarrow> menu_ref \<Rightarrow> bool \<Rightarrow> world \<Rightarrow> (unit outcome \<times> world) option" where
  "main_loop_with loop m scr w =
     (let w1 = (if scr then w\<lparr>stdscr := True\<rparr> else w)
      in if \<not> stdscr w1 then Some (Raises AttributeError, w1)
         else (let (y, x) = terminal w1;
                   w2 = upd_menu m (\<lambda>j. j\<lparr>term_y := y, term_x := x\<rparr>) w1;
                   rows = int (length (items (menus w2 m))) + 6;
                   w3 = upd_menu m (\<lambda>j. j\<lparr>screen := Some (rows, term_x j)\<rparr>)
                          (emit (Newpad m rows (term_x (menus w2 m))) w2);
                   w4 = set_up_colors m w3;
                   w5 = emit Stdscr_refresh (emit (Curs_set 0) w4)
               in and_then_o (Some (draw m w5))
                    (\<lambda>_ w6. loop m
                       (upd_menu m (\<lambda>j. j\<lparr>running := True\<rparr>)
                          (w6\<lparr>currently_active_menu := Some m\<rparr>)))))"

definition wrap_start_with :: "loop_fun \<Rightarrow> menu_ref \<Rightarrow> world \<Rightarrow> (unit outcome \<times> world) option" where
  "wrap_start_with loop m w =
     and_then_o
       (case parent (menus w m) of
          None \<Rightarrow>
            (case main_loop_with loop m True (emit Initscr w) of
               None \<Rightarrow> None
             | Some (r, w1) \<Rightarrow> Some (r, emit Endwin w1))
        | Some p \<Rightarrow> main_loop_with loop m False w)
       (\<lambda>_ w1. and_then_o (Some (clear_screen m (w1\<lparr>currently_active_menu := None\<rparr>)))
       (\<lambda>_ w2. (let w3 = clear_terminal w2
                 in Some (Returns (),
                          w3\<lparr>currently_active_menu := previous_active_menu (menus w3 m)\<rparr>))))"

definition start_with :: "loop_fun \<Rightarrow> menu_ref \<Rightarrow> bool option \<Rightarrow> world \<Rightarrow> (unit outcome \<times> world) option" where
  "start_with loop m show_exit w =
     (let w1 = upd_menu m (\<lambda>j. j\<lparr>previous_active_menu := currently_active_menu w\<rparr>) w;
          w2 = w1\<lparr>currently_active_menu := None\<rparr>;
          w3 = upd_menu m (\<lambda>j. j\<lparr>current_option := 0, should_exit := False\<rparr>) w2;
          shown = (case show_exit of None \<Rightarrow> show_exit_option (menus w3 m) | Some b \<Rightarrow> b);
          w4 = (if shown then snd (add_exit m w3) else snd (remove_exit m w3))
      in wrap_start_with loop m w4)"

text \<open>\<^verbatim>\<open>action\<close>: \<^verbatim>\<open>pass\<close> in \<^verbatim>\<open>MenuItem\<close>, inherited by \<^verbatim>\<open>ExitItem\<close> and \<^verbatim>\<open>ExternalItem\<close>;
  \<^verbatim>\<open>self.submenu.start()\<close> in \<^verbatim>\<open>SubmenuItem\<close>.\<close>

definition item_action_with :: "loop_fun \<Rightarrow> item_ref \<Rightarrow> world \<Rightarrow> (unit outcome \<times> world) option" where
  "item_action_with loop i w =
     (case cls (objs w i) of
        SubmenuItem sub \<Rightarrow>
          (case sub of
             None \<Rightarrow> Some (Raises AttributeError, w)
           | Some c \<Rightarrow> start_with loop c None w)
      | _ \<Rightarrow> Some (Returns (), w))"

definition select_with :: "loop_fun \<Rightarrow> menu_ref \<Rightarrow> world \<Rightarrow> (unit outcome \<times> world) option" where
  "select_with loop m w =
     and_then_o (Some (selected_item_attr m
                        (upd_menu m (\<lambda>j. j\<lparr>selected_option := current_option j\<rparr>) w)))
      (\<lambda>i1 w1. and_then_o (Some (item_set_up i1 w1))
      (\<lambda>_ w2. and_then_o (Some (selected_item_attr m w2))
      (\<lambda>i2 w2. and_then_o (item_action_with loop i2 w2)
      (\<lambda>_ w3. and_then_o (Some (selected_item_attr m w3))
      (\<lambda>i3 w3. and_then_o (Some (item_clean_up i3 w3))
      (\<lambda>_ w4. and_then_o (Some (selected_item_attr m w4))
      (\<lambda>i4 w4. and_then_o (Some (item_get_return i4 w4))
      (\<lambda>v w5. and_then_o (Some (selected_item_attr m
                                  (upd_menu m (\<lambda>j. j\<lparr>returned_value := v\<rparr>) w5)))
      (\<lambda>i5 w6. (let w7 = upd_menu m (\<lambda>j. j\<lparr>should_exit := item_should_exit (objs w6 i5)\<rparr>) w6
                 in if \<not> should_exit (menus w7 m) then Some (draw m w7)
                    else Some (Returns (), w7)))))))))))"

text \<open>\<^verbatim>\<open>ord(str(len(self.items)))\<close> is taken for fewer than nine options, where it is
  \<^verbatim>\<open>ord("0") + len(self.items)\<close>.\<close>

definition process_user_input_with :: "loop_fun \<Rightarrow> menu_ref \<Rightarrow> world \<Rightarrow> (int outcome \<times> world) option" where
  "process_user_input_with loop m w =
     (if \<not> stdscr w then Some (Raises AttributeError, w)
      else (case keys w of
              [] \<Rightarrow> None
            | user_input # ks \<Rightarrow>
                (let w1 = w\<lparr>keys := ks\<rparr>;
                     len = int (length (items (menus w1 m)));
                     go_to_max = (if len \<ge> 9 then ord_9 else ord_0 + len)
                 in and_then_o
                      (if ord_1 \<le> user_input \<and> user_input \<le> go_to_max
                       then Some (go_to m (user_input - ord_0 - 1) w1)
                       else if user_input = KEY_DOWN then Some (go_down m w1)
                       else if user_input = KEY_UP then Some (go_up m w1)
                       else if user_input = KEY_RIGHT then select_with loop m w1
                       else if user_input = KEY_LEFT
                       then select_with loop m
                              (upd_menu m (\<lambda>j. j\<lparr>current_option := int (length (items j)) - 1\<rparr>) w1)
                       else if user_input = KEY_RESIZE
                       then main_loop_with loop m False (upd_menu m (\<lambda>j. j\<lparr>running := False\<rparr>) w1)
                       else if user_input = ord_newline then select_with loop m w1
                       else Some (Returns (), w1))
                      (\<lambda>_ w2. Some (Returns user_input, w2)))))"

text \<open>\<^verbatim>\<open>while self._running is not False and not self.should_exit: self.process_user_input()\<close>\<close>

primrec main_loop_while :: "nat \<Rightarrow> menu_ref \<Rightarrow> world \<Rightarrow> (unit outcome \<times> world) option" where
  "main_loop_while 0 m w =
     (if running (menus w m) \<and> \<not> should_exit (menus w m) then None else Some (Returns (), w))"
| "main_loop_while (Suc n) m w =
     (if running (menus w m) \<and> \<not> should_exit (menus w m)
      then and_then_o (process_user_input_with (main_loop_while n) m w)
             (\<lambda>_ w1. main_loop_while n m w1)
      else Some (Returns (), w))"

definition main_loop :: "nat \<Rightarrow> menu_ref \<Rightarrow> bool \<Rightarrow> world \<Rightarrow> (unit outcome \<times> world) option" where
  "main_loop n = main_loop_with (main_loop_while n)"

definition wrap_start :: "nat \<Rightarrow> menu_ref \<Rightarrow> world \<Rightarrow> (unit outcome \<times> world) option" where
  "wrap_start n = wrap_start_with (main_loop_while n)"

definition start :: "nat \<Rightarrow> menu_ref \<Rightarrow> bool option \<Rightarrow> world \<Rightarrow> (unit outcome \<times> world) option" where
  "start n = start_with (main_loop_while n)"

definition item_action :: "nat \<Rightarrow> item_ref \<Rightarrow> world \<Rightarrow> (unit outcome \<times> world) option" where
  "item_action n = item_action_with (main_loop_while n)"

definition select :: "nat \<Rightarrow> menu_ref \<Rightarrow> world \<Rightarrow> (unit outcome \<times> world) option" where
  "select n = select_with (main_loop_while n)"

definition process_user_input :: "nat \<Rightarrow> menu_ref \<Rightarrow> world \<Rightarrow> (int outcome \<times> world) option" where
  "process_user_input n = process_user_input_with (main_loop_while n)"

subsection \<open>A sequence of appends\<close>

text \<open>The caller's \<^verbatim>\<open>for\<close> loop over \<^verbatim>\<open>menu.append_item(...)\<close> (as in \<^verbatim>\<open>main.py\<close>): it stops at
  the first call that raises.\<close>

fun append_items :: "menu_ref \<Rightarrow> item_ref list \<Rightarrow> world \<Rightarrow> unit outcome \<times> world" where
  "append_items m [] w = (Returns (), w)"
| "append_items m (i # rest) w = and_then (append_item m i w) (\<lambda>_ w1. append_items m rest w1)"

subsection \<open>Concrete states\<close>

text \<open>A process in which nothing has been built yet, on a terminal of 24 rows and 80
  columns; references that are not allocated hold blank objects.\<close>

definition fresh_world :: world where
  "fresh_world =
     \<lparr>menus = (\<lambda>_. \<lparr>title = None, subtitle = None, show_exit_option = True, screen = None,
                     highlight = None, normal = None, term_y = 0, term_x = 0, items = [],
                     current_option = 0, selected_option = - 1, returned_value = None,
                     should_exit = False, parent = None, previous_active_menu = None,
                     exit_item = 0, running = False\<rparr>),
      objs = (\<lambda>_. \<lparr>cls = MenuItem, item_text = [], menu = None, item_should_exit = False\<rparr>),
      next_menu = 0, next_item = 0, currently_active_menu = None, stdscr = False,
      terminal = (24, 80), keys = [], calls = [], version = ''1.0'', on_windows = False\<rparr>"

text \<open>\<^verbatim>\<open>Jumpbox("Main")\<close>: menu 0 with exit entry 0 and no options.\<close>

definition empty_menu_world :: world where
  "empty_menu_world = snd (Jumpbox_init (Some ''Main'') None True fresh_world)"

text \<open>\<^verbatim>\<open>m = Jumpbox("Main"); m.append_item(MenuItem("A"))\<close>: option 1 in menu 0.\<close>

definition one_item_world :: world where
  "one_item_world =
     snd (append_item 0 1 (snd (MenuItem_init ''A'' None False empty_menu_world)))"

text \<open>Menu 0 with the options A, B and C (1, 2 and 3) appended.\<close>

definition abc_items_world :: world where
  "abc_items_world =
     snd (append_items 0 [1, 2, 3]
       (snd (MenuItem_init ''C'' None False
         (snd (MenuItem_init ''B'' None False
           (snd (MenuItem_init ''A'' None False empty_menu_world)))))))"

text \<open>A menu as its loop finds it on a terminal of 24 rows and 80 columns: the exit entry
  added, the pad and the colours set, the standard window present.\<close>

definition on_screen :: "menu_ref \<Rightarrow> world \<Rightarrow> world" where
  "on_screen m w =
     upd_menu m (\<lambda>j. j\<lparr>screen := Some (int (length (items j)) + 6, 80),
                        highlight := Some (Color_pair 1), normal := Some A_NORMAL,
                        term_y := 24, term_x := 80, running := True\<rparr>)
       ((snd (add_exit m w))\<lparr>stdscr := True, currently_active_menu := Some m\<rparr>)"

definition abc_world :: world where
  "abc_world = on_screen 0 abc_items_world"

text \<open>The state \<open>abc_world\<close> with an \<^verbatim>\<open>ExternalItem\<close> (option 4) made for menu 0.\<close>

definition ext_world :: world where
  "ext_world = snd (ExternalItem_init ''Quick Connect'' (Some 0) False abc_world)"

text \<open>The state \<open>abc_world\<close> on a terminal of 8 rows, the cursor on the exit entry (index 3)
  after option B (index 1) was selected.\<close>

definition small_terminal_world :: world where
  "small_terminal_world =
     upd_menu 0 (\<lambda>j. j\<lparr>current_option := 3, selected_option := 1\<rparr>) (abc_world\<lparr>terminal := (8, 80)\<rparr>)"

text \<open>A parent and a child: menu 0 ("Main") holds the \<^verbatim>\<open>SubmenuItem\<close> 2 made for it, whose
  submenu is menu 1 ("Sites") with the option 3; menu 0 is on screen with the cursor on the
  submenu option, and the user will press down, left and \<^verbatim>\<open>q\<close>.\<close>

definition submenu_world :: world where
  "submenu_world =
     (on_screen 0
        (snd (append_item 1 3
          (snd (MenuItem_init ''X'' None False
            (snd (append_item 0 2
              (snd (SubmenuItem_init ''Sites'' (Some 1) (Some 0) False
                (snd (Jumpbox_init (Some ''Sites'') None True empty_menu_world)))))))))))
       \<lparr>keys := [KEY_DOWN, KEY_LEFT, 113]\<rparr>"

subsection \<open>Relations between states\<close>

text \<open>What a redraw may change: the texts of options and the trace.\<close>

definition relabelled :: "world \<Rightarrow> world \<Rightarrow> bool" where
  "relabelled w w' \<longleftrightarrow>
     (\<exists>ob cs. w' = w\<lparr>objs := ob, calls := calls w @ cs\<rparr> \<and>
        (\<forall>j. cls (ob j) = cls (objs w j) \<and> menu (ob j) = menu (objs w j) \<and>
             item_should_exit (ob j) = item_should_exit (objs w j)))"

text \<open>The exit entry is in the list once, as its last element.\<close>

definition exit_last :: "menu_ref \<Rightarrow> world \<Rightarrow> bool" where
  "exit_last m w \<longleftrightarrow>
     items (menus w m) \<noteq> [] \<and>
     last (items (menus w m)) = exit_item (menus w m) \<and>
     count_list (items (menus w m)) (exit_item (menus w m)) = 1"

text \<open>What the methods of menu \<open>m\<close> leave alone: the other menus, and of every option its
  class, its menu and its exit flag; the standard window stays.\<close>

definition only_menu :: "menu_ref \<Rightarrow> world \<Rightarrow> world \<Rightarrow> bool" where
  "only_menu m w w' \<longleftrightarrow>
     (\<forall>k. k \<noteq> m \<longrightarrow> menus w' k = menus w k) \<and>
     (\<forall>j. cls (objs w' j) = cls (objs w j) \<and> menu (objs w' j) = menu (objs w j) \<and>
          item_should_exit (objs w' j) = item_should_exit (objs w j)) \<and>
     (stdscr w \<longrightarrow> stdscr w')"

text \<open>The loop of menu \<open>m\<close> is about to read a key.\<close>

definition in_loop :: "menu_ref \<Rightarrow> world \<Rightarrow> bool" where
  "in_loop m w \<longleftrightarrow>
     stdscr w \<and> screen (menus w m) \<noteq> None \<and> items (menus w m) \<noteq> [] \<and>
     running (menus w m) \<and> \<not> should_exit (menus w m)"

text \<open>A key that neither selects nor resizes: a digit, an arrow up or down, or a key the
  menu ignores.\<close>

definition cursor_key :: "int \<Rightarrow> bool" where
  "cursor_key k \<longleftrightarrow> k \<noteq> KEY_RIGHT \<and> k \<noteq> KEY_LEFT \<and> k \<noteq> KEY_RESIZE \<and> k \<noteq> ord_newline"

section \<open>Basic facts\<close>

lemma emit_proj [simp]:
  "menus (emit c w) = menus w" "objs (emit c w) = objs w" "stdscr (emit c w) = stdscr w"
  "terminal (emit c w) = terminal w" "keys (emit c w) = keys w" "version (emit c w) = version w"
  "on_windows (emit c w) = on_windows w" "currently_active_menu (emit c w) = currently_active_menu w"
  "next_menu (emit c w) = next_menu w" "next_item (emit c w) = next_item w"
  "calls (emit c w) = calls w @ [c]"
  by (simp_all add: emit_def)

lemma upd_menu_proj [simp]:
  "menus (upd_menu m f w) = (menus w)(m := f (menus w m))" "objs (upd_menu m f w) = objs w"
  "stdscr (upd_menu m f w) = stdscr w" "terminal (upd_menu m f w) = terminal w"
  "keys (upd_menu m f w) = keys w" "version (upd_menu m f w) = version w"
  "on_windows (upd_menu m f w) = on_windows w"
  "currently_active_menu (upd_menu m f w) = currently_active_menu w"
  "next_menu (upd_menu m f w) = next_menu w" "next_item (upd_menu m f w) = next_item w"
  "calls (upd_menu m f w) = calls w"
  by (simp_all add: upd_menu_def)

lemma upd_item_proj [simp]:
  "menus (upd_item i f w) = menus w" "objs (upd_item i f w) = (objs w)(i := f (objs w i))"
  "stdscr (upd_item i f w) = stdscr w" "terminal (upd_item i f w) = terminal w"
  "keys (upd_item i f w) = keys w" "version (upd_item i f w) = version w"
  "on_windows (upd_item i f w) = on_windows w"
  "currently_active_menu (upd_item i f w) = currently_active_menu w"
  "next_menu (upd_item i f w) = next_menu w" "next_item (upd_item i f w) = next_item w"
  "calls (upd_item i f w) = calls w"
  by (simp_all add: upd_item_def)

lemma relabelled_refl: "relabelled w w"
  unfolding relabelled_def by (rule exI[of _ "objs w"], rule exI[of _ "[]"]) simp

lemma relabelled_trans: "relabelled w w1 \<Longrightarrow> relabelled w1 w2 \<Longrightarrow> relabelled w w2"
proof -
  assume "relabelled w w1" and "relabelled w1 w2"
  then obtain ob cs ob' cs' where
    1: "w1 = w\<lparr>objs := ob, calls := calls w @ cs\<rparr>"
       "\<forall>j. cls (ob j) = cls (objs w j) \<and> menu (ob j) = menu (objs w j) \<and>
             item_should_exit (ob j) = item_should_exit (objs w j)" and
    2: "w2 = w1\<lparr>objs := ob', calls := calls w1 @ cs'\<rparr>"
       "\<forall>j. cls (ob' j) = cls (objs w1 j) \<and> menu (ob' j) = menu (objs w1 j) \<and>
             item_should_exit (ob' j) = item_should_exit (objs w1 j)"
    unfolding relabelled_def by blast
  show ?thesis unfolding relabelled_def
    by (rule exI[of _ ob'], rule exI[of _ "cs @ cs'"]) (use 1 2 in simp)
qed

lemma relabelled_emit: "relabelled w (emit c w)"
  unfolding relabelled_def by (rule exI[of _ "objs w"], rule exI[of _ "[c]"]) (simp add: emit_def)

lemma relabelled_item_show: "relabelled w (snd (item_show i k w))"
  unfolding relabelled_def
  by (rule exI[of _ "objs (snd (item_show i k w))"], rule exI[of _ "[]"])
     (auto simp: item_show_def ExitItem_show_def MenuItem_show_def upd_item_def Let_def
           split: item_class.splits)

lemma relabelled_draw_items: "relabelled w (snd (draw_items m xs idx w))"
proof (induction xs arbitrary: idx w)
  case Nil
  show ?case by (simp add: relabelled_refl)
next
  case (Cons p xs)
  obtain k i where p: "p = (k, i)" by (cases p)
  obtain l w1 where s: "item_show i k w = (l, w1)" by (cases "item_show i k w")
  let ?w2 = "emit (Addstr m (k + 5) 4 l
      (if current_option (menus w m) = k then highlight (menus w m) else normal (menus w m))) w1"
  have "relabelled w w1" using relabelled_item_show[of w i k] s by simp
  then have a: "relabelled w ?w2" by (rule relabelled_trans[OF _ relabelled_emit])
  have b: "relabelled ?w2 (snd (draw_items m xs (Some k) ?w2))" by (rule Cons.IH)
  have "draw_items m (p # xs) idx w = draw_items m xs (Some k) ?w2"
    using p s by (simp add: Let_def)
  then show ?case using relabelled_trans[OF a b] by simp
qed

lemma relabelled_proj:
  assumes "relabelled w w'"
  shows "menus w' = menus w" "stdscr w' = stdscr w" "terminal w' = terminal w" "keys w' = keys w"
    "version w' = version w" "on_windows w' = on_windows w"
    "currently_active_menu w' = currently_active_menu w"
    "cls (objs w' j) = cls (objs w j)" "menu (objs w' j) = menu (objs w j)"
    "item_should_exit (objs w' j) = item_should_exit (objs w j)"
proof -
  obtain ob cs where w': "w' = w\<lparr>objs := ob, calls := calls w @ cs\<rparr>"
    and ob: "\<And>j. cls (ob j) = cls (objs w j)" "\<And>j. menu (ob j) = menu (objs w j)"
      "\<And>j. item_should_exit (ob j) = item_should_exit (objs w j)"
    using assms unfolding relabelled_def by blast
  show "menus w' = menus w" "stdscr w' = stdscr w" "terminal w' = terminal w" "keys w' = keys w"
    "version w' = version w" "on_windows w' = on_windows w"
    "currently_active_menu w' = currently_active_menu w"
    "cls (objs w' j) = cls (objs w j)" "menu (objs w' j) = menu (objs w j)"
    "item_should_exit (objs w' j) = item_should_exit (objs w j)"
    by (simp_all add: w' ob)
qed

lemma fst_draw_items: "fst (draw_items m xs idx w) = (if xs = [] then idx else Some (fst (last xs)))"
  by (induction xs arbitrary: idx w) (auto simp: Let_def split: prod.splits)

lemma enumerate_py_Nil [simp]: "enumerate_py xs = [] \<longleftrightarrow> xs = []"
  by (simp add: enumerate_py_def)


lemmas item_show_proj [simp] = relabelled_proj[OF relabelled_item_show]
lemmas draw_items_proj [simp] = relabelled_proj[OF relabelled_draw_items]

lemma fst_draw:
  "fst (draw m w) =
     (if screen (menus w m) = None then Raises AttributeError
      else if items (menus w m) = [] then Raises UnboundLocalError
      else if \<not> stdscr w then Raises AttributeError
      else Returns ())"
  by (simp add: draw_def Let_def case_prod_beta fst_draw_items split: option.splits)

lemma draw_proj [simp]:
  "stdscr (snd (draw m w)) = stdscr w" "terminal (snd (draw m w)) = terminal w"
  "keys (snd (draw m w)) = keys w" "version (snd (draw m w)) = version w"
  "on_windows (snd (draw m w)) = on_windows w"
  "currently_active_menu (snd (draw m w)) = currently_active_menu w"
  "cls (objs (snd (draw m w)) j) = cls (objs w j)" "menu (objs (snd (draw m w)) j) = menu (objs w j)"
  "item_should_exit (objs (snd (draw m w)) j) = item_should_exit (objs w j)"
  by (simp_all add: draw_def Let_def case_prod_beta fst_draw_items split: option.splits)

lemma menus_draw:
  "menus (snd (draw m w)) =
     (if fst (draw m w) = Returns ()
      then (menus w)(m := (menus w m)\<lparr>term_y := fst (terminal w), term_x := snd (terminal w)\<rparr>)
      else menus w)"
  by (simp add: draw_def Let_def case_prod_beta fst_draw_items split: option.splits)

lemma last_call_draw:
  "fst (draw m w) = Returns () \<Longrightarrow>
   last (calls (snd (draw m w))) =
     Pad_refresh m (top_row_of (int (length (items (menus w m)))) (fst (terminal w))
                      (current_option (menus w m)))
       0 0 0 (fst (terminal w) - 1) (snd (terminal w) - 1)"
  by (simp add: draw_def Let_def case_prod_beta fst_draw_items split: option.splits if_splits)



lemmas build_defs =
  fresh_world_def empty_menu_world_def one_item_world_def abc_items_world_def abc_world_def
  on_screen_def Jumpbox_init_def ExitItem_init_def MenuItem_init_def ExternalItem_init_def
  SubmenuItem_init_def new_item_def append_item_def remove_exit_def add_exit_def and_then_def
  Let_def

lemma draw_fields [simp]:
  "items (menus (snd (draw m w)) k) = items (menus w k)"
  "current_option (menus (snd (draw m w)) k) = current_option (menus w k)"
  "selected_option (menus (snd (draw m w)) k) = selected_option (menus w k)"
  "screen (menus (snd (draw m w)) k) = screen (menus w k)"
  "should_exit (menus (snd (draw m w)) k) = should_exit (menus w k)"
  "running (menus (snd (draw m w)) k) = running (menus w k)"
  "parent (menus (snd (draw m w)) k) = parent (menus w k)"
  "exit_item (menus (snd (draw m w)) k) = exit_item (menus w k)"
  "title (menus (snd (draw m w)) k) = title (menus w k)"
  "subtitle (menus (snd (draw m w)) k) = subtitle (menus w k)"
  "show_exit_option (menus (snd (draw m w)) k) = show_exit_option (menus w k)"
  "highlight (menus (snd (draw m w)) k) = highlight (menus w k)"
  "normal (menus (snd (draw m w)) k) = normal (menus w k)"
  "returned_value (menus (snd (draw m w)) k) = returned_value (menus w k)"
  "previous_active_menu (menus (snd (draw m w)) k) = previous_active_menu (menus w k)"
  by (simp_all add: menus_draw)

lemma go_down_cursor:
  "current_option (menus (snd (go_down m w)) m) =
     (if current_option (menus w m) < int (length (items (menus w m))) - 1
      then current_option (menus w m) + 1 else 0)"
  by (simp add: go_down_def)

lemma go_up_cursor:
  "current_option (menus (snd (go_up m w)) m) =
     (if current_option (menus w m) > 0
      then current_option (menus w m) - 1 else int (length (items (menus w m))) - 1)"
  by (simp add: go_up_def)

lemma go_down_items: "items (menus (snd (go_down m w)) k) = items (menus w k)"
  by (simp add: go_down_def)

lemma go_up_items: "items (menus (snd (go_up m w)) k) = items (menus w k)"
  by (simp add: go_up_def)

lemma go_down_returns:
  "fst (go_down m w) =
     (if screen (menus w m) = None then Raises AttributeError
      else if items (menus w m) = [] then Raises UnboundLocalError
      else if \<not> stdscr w then Raises AttributeError
      else Returns ())"
  by (cases "current_option (menus w m) < int (length (items (menus w m))) - 1")
     (simp_all add: go_down_def fst_draw)

lemma go_up_returns:
  "fst (go_up m w) =
     (if screen (menus w m) = None then Raises AttributeError
      else if items (menus w m) = [] then Raises UnboundLocalError
      else if \<not> stdscr w then Raises AttributeError
      else Returns ())"
  by (cases "current_option (menus w m) > 0") (simp_all add: go_up_def fst_draw)

lemma go_down_screen: "screen (menus (snd (go_down m w)) k) = screen (menus w k)"
  "stdscr (snd (go_down m w)) = stdscr w"
  by (simp_all add: go_down_def)

lemma abc_world_simps:
  "items (menus abc_world 0) = [1, 2, 3, 0]" "exit_item (menus abc_world 0) = 0"
  "screen (menus abc_world 0) = Some (10, 80)" "stdscr abc_world"
  "current_option (menus abc_world 0) = 0" "selected_option (menus abc_world 0) = - 1"
  "terminal abc_world = (24, 80)" "menu (objs abc_world 1) = Some 0"
  by (simp_all add: build_defs)

lemma small_terminal_world_simps:
  "items (menus small_terminal_world 0) = [1, 2, 3, 0]"
  "screen (menus small_terminal_world 0) = Some (10, 80)" "stdscr small_terminal_world"
  "current_option (menus small_terminal_world 0) = 3"
  "selected_option (menus small_terminal_world 0) = 1"
  "terminal small_terminal_world = (8, 80)"
  by (simp_all add: small_terminal_world_def abc_world_simps)

section \<open>Cursor movement\<close>

text \<open>
  C2 (as the code has it).  \<^verbatim>\<open>go_down\<close> puts the cursor one index further down, and on 0
  once it is at or past the last index; \<^verbatim>\<open>go_up\<close> puts it one index further up, and on
  the last index \<^verbatim>\<open>len(self.items) - 1\<close> once it is at or before index 0.  Nothing tests for
  an empty list: there \<^verbatim>\<open>go_up\<close> leaves the cursor on \<open>-1\<close>.  The equations hold for the
  state the call leaves behind whether or not the redraw that ends it returns.
\<close>

theorem go_down_go_up_cursor:
  "current_option (menus (snd (go_down m w)) m) =
     (if current_option (menus w m) < int (length (items (menus w m))) - 1
      then current_option (menus w m) + 1 else 0) \<and>
   current_option (menus (snd (go_up m w)) m) =
     (if current_option (menus w m) > 0
      then current_option (menus w m) - 1 else int (length (items (menus w m))) - 1)"
  by (simp add: go_down_cursor go_up_cursor)

text \<open>C2 as stated fails: on the empty list of a new menu \<^verbatim>\<open>go_up\<close> moves the cursor
  from 0 to \<open>-1\<close>.\<close>

theorem go_up_empty_counterexample:
  "items (menus empty_menu_world 0) = [] \<and>
   current_option (menus empty_menu_world 0) = 0 \<and>
   current_option (menus (snd (go_up 0 empty_menu_world)) 0) = - 1"
  by (simp add: go_up_cursor) (simp add: build_defs)

text \<open>
  C9.  On a non-empty list that stays as it is, with the cursor on one of its indices,
  \<^verbatim>\<open>go_down\<close> followed by \<^verbatim>\<open>go_up\<close> brings the cursor back; both calls return when the menu
  is on screen.
\<close>

theorem go_up_after_go_down:
  assumes "items (menus w m) \<noteq> []"
    and "0 \<le> current_option (menus w m)"
    and "current_option (menus w m) < int (length (items (menus w m)))"
  shows "current_option (menus (snd (go_up m (snd (go_down m w)))) m) = current_option (menus w m) \<and>
         items (menus (snd (go_down m w)) m) = items (menus w m) \<and>
         (screen (menus w m) \<noteq> None \<and> stdscr w \<longrightarrow>
            fst (go_down m w) = Returns () \<and> fst (go_up m (snd (go_down m w))) = Returns ())"
  using assms
  by (simp add: go_up_cursor go_down_cursor go_down_items go_up_returns go_down_returns go_down_screen)

theorem go_up_after_go_down_witness:
  "items (menus abc_world 0) \<noteq> [] \<and> 0 \<le> current_option (menus abc_world 0) \<and>
   current_option (menus abc_world 0) < int (length (items (menus abc_world 0))) \<and>
   current_option (menus (snd (go_up 0 (snd (go_down 0 abc_world)))) 0) = 0 \<and>
   fst (go_down 0 abc_world) = Returns () \<and>
   fst (go_up 0 (snd (go_down 0 abc_world))) = Returns ()"
  using go_up_after_go_down[of abc_world 0] by (simp add: abc_world_simps)

section \<open>Scrolling\<close>

text \<open>
  C4.  \<^verbatim>\<open>draw\<close> on a menu that has its pad and at least one option returns, and it ends
  with \<^verbatim>\<open>self.screen.refresh(top_row, 0, 0, 0, H - 1, W - 1)\<close>, where \<open>(H, W)\<close> is the size of
  the terminal and, with \<open>C\<close> the number of options plus 6, \<open>top_row\<close> is 0 when \<open>C \<le> H\<close>,
  the cursor when \<open>H + cursor < C\<close>, and \<open>C - H\<close> otherwise.
\<close>

theorem draw_scroll_offset:
  assumes "screen (menus w m) \<noteq> None" and "items (menus w m) \<noteq> []" and "stdscr w"
  shows "fst (draw m w) = Returns () \<and>
         last (calls (snd (draw m w))) =
           Pad_refresh m
             (if int (length (items (menus w m))) + 6 \<le> fst (terminal w) then 0
              else if fst (terminal w) + current_option (menus w m) < int (length (items (menus w m))) + 6
              then current_option (menus w m)
              else int (length (items (menus w m))) + 6 - fst (terminal w))
             0 0 0 (fst (terminal w) - 1) (snd (terminal w) - 1)"
proof -
  have r: "fst (draw m w) = Returns ()" using assms by (simp add: fst_draw)
  show ?thesis using r last_call_draw[OF r] by (simp add: top_row_of_def)
qed

theorem draw_scroll_offset_witness:
  "fst (draw 0 small_terminal_world) = Returns () \<and>
   last (calls (snd (draw 0 small_terminal_world))) = Pad_refresh 0 2 0 0 0 7 79"
  using draw_scroll_offset[of small_terminal_world 0]
  by (simp add: small_terminal_world_simps)

section \<open>The selected option\<close>

text \<open>
  C10.  With options present and a selection recorded (the selected index is not \<open>-1\<close>),
  \<^verbatim>\<open>selected_item\<close> is \<^verbatim>\<open>self.items[self.current_option]\<close>, the option under the cursor and
  the same as \<^verbatim>\<open>current_item\<close>: the recorded index only decides whether there is a selected
  option.  So after the cursor has moved, \<^verbatim>\<open>selected_item\<close> is the option the cursor is on
  now.  (In the state of the witness index 1 is recorded, the cursor is on index 3, and the
  option at index 3 is reported.)
\<close>

theorem selected_item_is_at_cursor:
  assumes "items (menus w m) \<noteq> []"
    and "selected_option (menus w m) \<noteq> - 1"
  shows "selected_item m w =
           (case py_index (items (menus w m)) (current_option (menus w m)) of
              None \<Rightarrow> Raises IndexError
            | Some i \<Rightarrow> Returns (Some i)) \<and>
         selected_item m w = current_item m w \<and>
         (0 \<le> current_option (menus w m) \<and>
          current_option (menus w m) < int (length (items (menus w m))) \<longrightarrow>
            selected_item m w =
              Returns (Some (items (menus w m) ! nat (current_option (menus w m)))))"
  using assms by (simp add: selected_item_def current_item_def py_index_def)

theorem selected_item_is_at_cursor_witness:
  "items (menus small_terminal_world 0) \<noteq> [] \<and>
   selected_option (menus small_terminal_world 0) = 1 \<and>
   current_option (menus small_terminal_world 0) = 3 \<and>
   selected_item 0 small_terminal_world = Returns (Some 0) \<and>
   items (menus small_terminal_world 0) ! 1 = 2"
  using selected_item_is_at_cursor[of small_terminal_world 0]
  by (simp add: small_terminal_world_simps py_index_def)

section \<open>Handing the terminal back\<close>

lemma clear_screen_ok:
  "screen (menus w m) \<noteq> None \<Longrightarrow> stdscr w \<Longrightarrow>
   clear_screen m w = (Returns (), w\<lparr>calls := calls w @ [Pad_clear m, Stdscr_erase, Stdscr_refresh]\<rparr>)"
  by (auto simp: clear_screen_def emit_def Let_def)

text \<open>
  C5.  \<^verbatim>\<open>clean_up\<close> of an \<^verbatim>\<open>ExternalItem\<close> whose menu is on screen returns, and what it does is,
  in this order: clear the menu's pad (\<^verbatim>\<open>clear_screen\<close>: the pad, then erase and refresh of
  the standard window), \<^verbatim>\<open>reset_prog_mode\<close>, \<^verbatim>\<open>curs_set(1)\<close>, \<^verbatim>\<open>curs_set(0)\<close>.  Nothing but the
  trace changes.
\<close>

theorem external_clean_up_order:
  assumes "cls (objs w i) = ExternalItem"
    and "menu (objs w i) = Some m"
    and "screen (menus w m) \<noteq> None"
    and "stdscr w"
  shows "item_clean_up i w =
           (Returns (),
            w\<lparr>calls := calls w @ [Pad_clear m, Stdscr_erase, Stdscr_refresh,
                                  Reset_prog_mode, Curs_set 1, Curs_set 0]\<rparr>)"
  using assms
  by (simp add: item_clean_up_def ExternalItem_clean_up_def menu_clear_screen_def
        clear_screen_ok and_then_def emit_def)

lemma ext_world_simps:
  "cls (objs ext_world 4) = ExternalItem" "menu (objs ext_world 4) = Some 0"
  "screen (menus ext_world 0) = Some (10, 80)" "stdscr ext_world"
  by (simp_all add: ext_world_def ExternalItem_init_def new_item_def)
     (simp_all add: build_defs)

theorem external_clean_up_order_witness:
  "cls (objs ext_world 4) = ExternalItem \<and> menu (objs ext_world 4) = Some 0 \<and>
   screen (menus ext_world 0) \<noteq> None \<and> stdscr ext_world \<and>
   fst (item_clean_up 4 ext_world) = Returns () \<and>
   calls (snd (item_clean_up 4 ext_world)) =
     calls ext_world @ [Pad_clear 0, Stdscr_erase, Stdscr_refresh, Reset_prog_mode, Curs_set 1, Curs_set 0]"
  using external_clean_up_order[of ext_world 4 0] by (simp add: ext_world_simps)

section \<open>The label of the exit entry\<close>

text \<open>
  C7 (as the code has it).  \<^verbatim>\<open>ExitItem.show(index)\<close> returns the row
  \<^verbatim>\<open>"<index+1> - Exit"\<close> when the entry has no menu or its menu has no parent, and
  \<^verbatim>\<open>"<index+1> - Return to <title of the parent> menu"\<close> when the menu has a parent.  The text
  is computed at each call from the parent the menu has then: a call made after the parent
  was changed returns what it would have returned had no earlier call been made.
\<close>

theorem exit_item_show_label:
  "fst (ExitItem_show i index w) =
     str_int (index + 1) @ '' - '' @
       (case menu (objs w i) of
          None \<Rightarrow> ''Exit''
        | Some m \<Rightarrow>
            (case parent (menus w m) of
               None \<Rightarrow> ''Exit''
             | Some p \<Rightarrow> ''Return to '' @ str_opt (title (menus w p)) @ '' menu'')) \<and>
   fst (ExitItem_show i index (upd_menu m' (\<lambda>j. j\<lparr>parent := q\<rparr>) (snd (ExitItem_show i index' w)))) =
     fst (ExitItem_show i index (upd_menu m' (\<lambda>j. j\<lparr>parent := q\<rparr>) w))"
  by (simp add: ExitItem_show_def MenuItem_show_def Let_def split: option.splits)

text \<open>C7 as stated fails: for the exit entry of a menu without parent, \<^verbatim>\<open>show(3)\<close> returns
  \<^verbatim>\<open>"4 - Exit"\<close>, not \<^verbatim>\<open>"Exit"\<close>.\<close>

theorem exit_item_show_counterexample:
  "menu (objs empty_menu_world 0) = Some 0 \<and> cls (objs empty_menu_world 0) = ExitItem \<and>
   parent (menus empty_menu_world 0) = None \<and>
   fst (ExitItem_show 0 3 empty_menu_world) = ''4 - Exit'' \<and>
   fst (ExitItem_show 0 3 empty_menu_world) \<noteq> ''Exit''"
  by (simp add: ExitItem_show_def MenuItem_show_def str_int_def build_defs)

section \<open>Digit keys\<close>

lemma and_then_o_Some_const:
  "and_then_o (Some r) (\<lambda>_ w2. Some (Returns k, w2)) =
     Some (case fst r of Returns _ \<Rightarrow> Returns k | Raises e \<Rightarrow> Raises e, snd r)"
  by (cases r) (simp add: and_then_o_def split: outcome.splits)

lemma go_to_cursor: "current_option (menus (snd (go_to m c w)) m) = c"
  by (simp add: go_to_def)

lemma go_to_keys: "keys (snd (go_to m c w)) = keys w"
  by (simp add: go_to_def)

lemma go_to_returns:
  "fst (go_to m c w) =
     (if screen (menus w m) = None then Raises AttributeError
      else if items (menus w m) = [] then Raises UnboundLocalError
      else if \<not> stdscr w then Raises AttributeError
      else Returns ())"
  by (simp add: go_to_def fst_draw)

text \<open>
  C8.  \<^verbatim>\<open>process_user_input\<close> reads a digit key \<open>d\<close> (the key code \<^verbatim>\<open>ord("0") + d\<close>) on a
  menu of \<open>N\<close> options, for any \<open>N\<close>.  The call returns; for \<open>1 \<le> d \<le> min 9 N\<close> the cursor is
  \<open>d - 1\<close> afterwards (and the key is returned when the menu has its pad), and for any other
  digit nothing changes but the key being consumed.
\<close>

theorem digit_key_moves_cursor:
  assumes "stdscr w" and "keys w = (ord_0 + d) # ks" and "0 \<le> d" and "d \<le> 9"
  shows "\<exists>out w'. process_user_input n m w = Some (out, w') \<and> keys w' = ks \<and>
           (if 1 \<le> d \<and> d \<le> min 9 (int (length (items (menus w m))))
            then current_option (menus w' m) = d - 1 \<and>
                 (if screen (menus w m) = None then out = Raises AttributeError
                  else out = Returns (ord_0 + d))
            else out = Returns (ord_0 + d) \<and> w' = w\<lparr>keys := ks\<rparr>)"
proof (cases "1 \<le> d \<and> d \<le> min 9 (int (length (items (menus w m))))")
  case True
  then have ne: "items (menus w m) \<noteq> []" by auto
  have "process_user_input n m w =
      and_then_o (Some (go_to m (d - 1) (w\<lparr>keys := ks\<rparr>)))
        (\<lambda>_ w2. Some (Returns (ord_0 + d), w2))"
    using assms True
    by (simp add: process_user_input_def process_user_input_with_def Let_def
          ord_0_def ord_1_def ord_9_def)
  then show ?thesis using ne assms(1)
    by (simp only: True if_True)
       (simp add: and_then_o_Some_const go_to_cursor go_to_keys go_to_returns)
next
  case False
  have "process_user_input n m w = Some (Returns (ord_0 + d), w\<lparr>keys := ks\<rparr>)"
    using assms False
    by (auto simp: process_user_input_def process_user_input_with_def Let_def and_then_o_def
          ord_0_def ord_1_def ord_9_def KEY_DOWN_def KEY_UP_def KEY_RIGHT_def KEY_LEFT_def
          KEY_RESIZE_def ord_newline_def)
  then show ?thesis by (simp only: False if_False) simp
qed

theorem digit_key_moves_cursor_witness:
  "stdscr abc_world \<and>
   (\<exists>out w'. process_user_input 0 0 (abc_world\<lparr>keys := [ord_0 + 3]\<rparr>) = Some (out, w') \<and>
      keys w' = [] \<and> current_option (menus w' 0) = 2 \<and> out = Returns (ord_0 + 3))"
  using digit_key_moves_cursor[of "abc_world\<lparr>keys := [ord_0 + 3]\<rparr>" 3 "[]" 0 0]
  by (simp add: abc_world_simps)

section \<open>A menu without options\<close>

lemma and_then_o_raises:
  "fst r = Raises e \<Longrightarrow> and_then_o (Some r) f = Some (Raises e, snd r)"
  by (cases r) (simp add: and_then_o_def)

lemma and_then_o_returns:
  "fst r = Returns x \<Longrightarrow> and_then_o (Some r) f = f x (snd r)"
  by (cases r) (simp add: and_then_o_def)

lemma main_loop_with_empty:
  assumes "items (menus w m) = []" and "scr \<or> stdscr w"
  shows "\<exists>w'. main_loop_with loop m scr w = Some (Raises UnboundLocalError, w')"
proof -
  define w1 where "w1 = (if scr then w\<lparr>stdscr := True\<rparr> else w)"
  have s1: "stdscr w1" and i1: "items (menus w1 m) = []"
    using assms by (auto simp: w1_def)
  have "fst (draw m (emit Stdscr_refresh (emit (Curs_set 0) (set_up_colors m
      (upd_menu m (\<lambda>j. j\<lparr>screen := Some (int (length (items (menus w1 m))) + 6, term_x j)\<rparr>)
         (emit (Newpad m (int (length (items (menus w1 m))) + 6) (snd (terminal w1)))
            (upd_menu m (\<lambda>j. j\<lparr>term_y := fst (terminal w1), term_x := snd (terminal w1)\<rparr>) w1))))))) =
        Raises UnboundLocalError"
    using i1 by (simp add: fst_draw set_up_colors_def)
  then show ?thesis using s1 i1
    by (simp add: main_loop_with_def Let_def case_prod_beta w1_def[symmetric] and_then_o_raises)
qed

lemma start_with_empty:
  assumes "items (menus w m) = []" and "parent (menus w m) = None"
  shows "\<exists>w'. start_with loop m None w = Some (Raises UnboundLocalError, w')"
proof -
  define w4 where "w4 = upd_menu m (\<lambda>j. j\<lparr>current_option := 0, should_exit := False\<rparr>)
      ((upd_menu m (\<lambda>j. j\<lparr>previous_active_menu := currently_active_menu w\<rparr>) w)
         \<lparr>currently_active_menu := None\<rparr>)"
  have i: "items (menus w4 m) = []" and p: "parent (menus w4 m) = None"
    using assms by (simp_all add: w4_def)
  have e: "snd (add_exit m w4) = w4" "snd (remove_exit m w4) = w4"
    using i by (simp_all add: add_exit_def remove_exit_def)
  have st: "start_with loop m None w = wrap_start_with loop m w4"
    by (simp add: start_with_def Let_def w4_def[symmetric] e)
  have i': "items (menus (emit Initscr w4) m) = []" using i by simp
  obtain w' where "main_loop_with loop m True (emit Initscr w4) = Some (Raises UnboundLocalError, w')"
    using main_loop_with_empty[OF i', of True loop] by auto
  then show ?thesis using p by (simp add: st wrap_start_with_def and_then_o_def)
qed

text \<open>
  C1 fails on the code.  \<^verbatim>\<open>Jumpbox("Main").start()\<close>, a menu with no options and the exit
  entry enabled: \<^verbatim>\<open>add_exit\<close> adds nothing to an empty list, and the first \<^verbatim>\<open>draw\<close> raises
  UnboundLocalError, because \<^verbatim>\<open>index\<close> is read after a \<^verbatim>\<open>for\<close> loop that never bound it.  The
  same holds for \<^verbatim>\<open>draw\<close> on a menu that has its pad and no options.
\<close>

theorem empty_menu_start_raises:
  "items (menus empty_menu_world 0) = [] \<and>
   map_option fst (start n 0 None empty_menu_world) = Some (Raises UnboundLocalError) \<and>
   items (menus (on_screen 0 empty_menu_world) 0) = [] \<and>
   fst (draw 0 (on_screen 0 empty_menu_world)) = Raises UnboundLocalError"
proof -
  have i: "items (menus empty_menu_world 0) = []" and p: "parent (menus empty_menu_world 0) = None"
    by (simp_all add: build_defs)
  obtain w' where "start n 0 None empty_menu_world = Some (Raises UnboundLocalError, w')"
    using start_with_empty[OF i p] unfolding start_def by blast
  moreover have "items (menus (on_screen 0 empty_menu_world) 0) = []"
    "screen (menus (on_screen 0 empty_menu_world) 0) \<noteq> None"
    using i by (simp_all add: on_screen_def add_exit_def)
  ultimately show ?thesis using i by (simp add: fst_draw)
qed

section \<open>Appending options\<close>

lemma remove_exit_fields [simp]:
  "exit_item (menus (snd (remove_exit m w)) k) = exit_item (menus w k)"
  "screen (menus (snd (remove_exit m w)) k) = screen (menus w k)"
  by (simp_all add: remove_exit_def)

lemma add_exit_fields [simp]:
  "exit_item (menus (snd (add_exit m w)) k) = exit_item (menus w k)"
  "screen (menus (snd (add_exit m w)) k) = screen (menus w k)"
  by (simp_all add: add_exit_def)

lemma append_item_exit_item:
  "exit_item (menus (snd (append_item m i w)) k) = exit_item (menus w k)"
  by (simp add: append_item_def Let_def case_prod_beta split: option.splits)

lemma append_item_items:
  "items (menus (snd (append_item m i w)) m) =
     (if items (menus w m) \<noteq> [] \<and> last (items (menus w m)) = exit_item (menus w m)
      then (if i = exit_item (menus w m) then butlast (items (menus w m)) @ [i]
            else butlast (items (menus w m)) @ [i, exit_item (menus w m)])
      else items (menus w m) @ [i])"
  by (simp add: append_item_def Let_def case_prod_beta remove_exit_def add_exit_def
        split: option.splits)

lemma count_butlast:
  "xs \<noteq> [] \<Longrightarrow> count_list xs (last xs) = 1 \<Longrightarrow> count_list (butlast xs) (last xs) = 0"
proof -
  assume a: "xs \<noteq> []" and c: "count_list xs (last xs) = 1"
  have "count_list (butlast xs @ [last xs]) (last xs) = 1" using a c by simp
  then show ?thesis by simp
qed

lemma exit_last_append_item:
  assumes "exit_last m w"
  shows "exit_last m (snd (append_item m i w))"
proof -
  let ?xs = "items (menus w m)" and ?e = "exit_item (menus w m)"
  have ne: "?xs \<noteq> []" and l: "last ?xs = ?e" and c: "count_list ?xs ?e = 1"
    using assms by (simp_all add: exit_last_def)
  have b: "count_list (butlast ?xs) ?e = 0" using count_butlast[OF ne] c l by simp
  show ?thesis
    using ne l b by (simp add: exit_last_def append_item_items append_item_exit_item)
qed

lemma exit_last_append_items:
  "exit_last m w \<Longrightarrow> exit_last m (snd (append_items m is w))"
proof (induction "is" arbitrary: w)
  case Nil
  then show ?case by simp
next
  case (Cons i rest)
  have 1: "exit_last m (snd (append_item m i w))" by (rule exit_last_append_item[OF Cons.prems])
  show ?case
  proof (cases "append_item m i w")
    case (Pair r w1)
    then show ?thesis using 1 Cons.IH[of w1] by (cases r) (simp_all add: and_then_def)
  qed
qed

text \<open>
  C3 (as the code has it).  \<^verbatim>\<open>append_item\<close> puts the exit entry back only when it took it
  off.  On a list that holds the exit entry once, as its last element (where \<^verbatim>\<open>start\<close> puts
  it), every sequence of \<^verbatim>\<open>append_item\<close> calls leaves a list that holds the exit entry
  once, at index \<^verbatim>\<open>len(self.items) - 1\<close>; this is so also when a call raises in its redraw,
  and when the exit entry itself is appended.
\<close>

theorem append_items_keeps_exit_last:
  assumes "items (menus w m) \<noteq> []"
    and "last (items (menus w m)) = exit_item (menus w m)"
    and "count_list (items (menus w m)) (exit_item (menus w m)) = 1"
  shows "items (menus (snd (append_items m is w)) m) \<noteq> [] \<and>
         items (menus (snd (append_items m is w)) m) !
           (length (items (menus (snd (append_items m is w)) m)) - 1) = exit_item (menus w m) \<and>
         count_list (items (menus (snd (append_items m is w)) m)) (exit_item (menus w m)) = 1"
proof -
  have "exit_last m w" using assms by (simp add: exit_last_def)
  then have "exit_last m (snd (append_items m is w))" by (rule exit_last_append_items)
  moreover have "exit_item (menus (snd (append_items m is w)) m) = exit_item (menus w m)"
  proof (induction "is" arbitrary: w)
    case Nil
    show ?case by simp
  next
    case (Cons i rest)
    show ?case
    proof (cases "append_item m i w")
      case (Pair r w1)
      have "exit_item (menus w1 m) = exit_item (menus w m)"
        using append_item_exit_item[of m i w m] Pair by simp
      then show ?thesis using Pair Cons.IH[of w1] by (cases r) (simp_all add: and_then_def)
    qed
  qed
  ultimately have "items (menus (snd (append_items m is w)) m) \<noteq> []"
    "last (items (menus (snd (append_items m is w)) m)) = exit_item (menus w m)"
    "count_list (items (menus (snd (append_items m is w)) m)) (exit_item (menus w m)) = 1"
    by (simp_all add: exit_last_def)
  then show ?thesis using last_conv_nth[of "items (menus (snd (append_items m is w)) m)"] by simp
qed

theorem append_items_keeps_exit_last_witness:
  "items (menus abc_world 0) = [1, 2, 3, 0] \<and> exit_item (menus abc_world 0) = 0 \<and>
   items (menus (snd (append_items 0 [2, 0] abc_world)) 0) \<noteq> [] \<and>
   items (menus (snd (append_items 0 [2, 0] abc_world)) 0) !
     (length (items (menus (snd (append_items 0 [2, 0] abc_world)) 0)) - 1) = 0 \<and>
   count_list (items (menus (snd (append_items 0 [2, 0] abc_world)) 0)) 0 = 1"
  using append_items_keeps_exit_last[of abc_world 0 "[2, 0]"] by (simp add: abc_world_simps)

text \<open>C3 as stated fails: a new menu has the exit option enabled
  (\<^verbatim>\<open>show_exit_option\<close> is true) and an empty list; after \<^verbatim>\<open>append_item\<close> its list is the new
  option alone, without the exit entry.\<close>

theorem append_item_fresh_menu_counterexample:
  "show_exit_option (menus empty_menu_world 0) \<and> items (menus empty_menu_world 0) = [] \<and>
   exit_item (menus one_item_world 0) = 0 \<and> show_exit_option (menus one_item_world 0) \<and>
   items (menus one_item_world 0) = [1] \<and>
   count_list (items (menus one_item_world 0)) (exit_item (menus one_item_world 0)) = 0"
  by (simp add: build_defs)

section \<open>Descending into a submenu and coming back\<close>

lemma only_menu_refl: "only_menu m w w"
  by (simp add: only_menu_def)

lemma only_menu_trans: "only_menu m w w1 \<Longrightarrow> only_menu m w1 w2 \<Longrightarrow> only_menu m w w2"
  by (simp add: only_menu_def)

lemma only_menu_draw: "only_menu m w (snd (draw m w))"
  by (simp add: only_menu_def menus_draw)

lemma only_menu_upd_menu: "only_menu m w (upd_menu m f w)"
  by (simp add: only_menu_def)

lemma only_menu_emit: "only_menu m w (emit c w)"
  by (simp add: only_menu_def)

lemma only_menu_keys: "only_menu m w (w\<lparr>keys := ks\<rparr>)"
  by (simp add: only_menu_def)

lemma only_menu_active: "only_menu m w (w\<lparr>currently_active_menu := a\<rparr>)"
  by (simp add: only_menu_def)

lemma only_menu_stdscr: "only_menu m w (w\<lparr>stdscr := True\<rparr>)"
  by (simp add: only_menu_def)

lemma only_menu_go_to: "only_menu m w (snd (go_to m c w))"
  unfolding go_to_def by (rule only_menu_trans[OF only_menu_upd_menu only_menu_draw])

lemma go_down_as_go_to:
  "go_down m w = go_to m (if current_option (menus w m) < int (length (items (menus w m))) - 1
                          then current_option (menus w m) + 1 else 0) w"
  by (simp add: go_down_def go_to_def upd_menu_def)

lemma go_up_as_go_to:
  "go_up m w = go_to m (if current_option (menus w m) > 0
                        then current_option (menus w m) + - 1
                        else int (length (items (menus w m))) - 1) w"
  by (simp add: go_up_def go_to_def upd_menu_def)

lemma go_to_fields:
  "items (menus (snd (go_to m c w)) k) = items (menus w k)"
  "exit_item (menus (snd (go_to m c w)) k) = exit_item (menus w k)"
  "screen (menus (snd (go_to m c w)) k) = screen (menus w k)"
  "running (menus (snd (go_to m c w)) k) = running (menus w k)"
  "should_exit (menus (snd (go_to m c w)) k) = should_exit (menus w k)"
  "stdscr (snd (go_to m c w)) = stdscr w"
  by (simp_all add: go_to_def)

lemma in_loop_go_to: "in_loop m w \<Longrightarrow> in_loop m (snd (go_to m c w))"
  by (simp add: in_loop_def go_to_fields)

lemma in_loop_keys: "in_loop m (w\<lparr>keys := ks\<rparr>) = in_loop m w"
  by (simp add: in_loop_def)

lemma process_user_input_with_key:
  assumes "stdscr w" and "keys w = k # ks"
  shows "process_user_input_with loop m w =
      and_then_o
        (if ord_1 \<le> k \<and> k \<le> (if int (length (items (menus w m))) \<ge> 9 then ord_9
                                  else ord_0 + int (length (items (menus w m))))
         then Some (go_to m (k - ord_0 - 1) (w\<lparr>keys := ks\<rparr>))
         else if k = KEY_DOWN then Some (go_down m (w\<lparr>keys := ks\<rparr>))
         else if k = KEY_UP then Some (go_up m (w\<lparr>keys := ks\<rparr>))
         else if k = KEY_RIGHT then select_with loop m (w\<lparr>keys := ks\<rparr>)
         else if k = KEY_LEFT
         then select_with loop m
                (upd_menu m (\<lambda>j. j\<lparr>current_option := int (length (items j)) - 1\<rparr>) (w\<lparr>keys := ks\<rparr>))
         else if k = KEY_RESIZE
         then main_loop_with loop m False (upd_menu m (\<lambda>j. j\<lparr>running := False\<rparr>) (w\<lparr>keys := ks\<rparr>))
         else if k = ord_newline then select_with loop m (w\<lparr>keys := ks\<rparr>)
         else Some (Returns (), w\<lparr>keys := ks\<rparr>))
        (\<lambda>_ w2. Some (Returns k, w2))"
  unfolding process_user_input_with_def Let_def using assms
  by (simp split del: if_split cong: if_cong)

text \<open>A key that only moves the cursor, or does nothing.\<close>

lemma cursor_key_step:
  assumes "in_loop m w" and "keys w = k # ks" and "cursor_key k"
  shows "\<exists>w'. process_user_input_with loop m w = Some (Returns k, w') \<and> keys w' = ks \<and>
           in_loop m w' \<and> items (menus w' m) = items (menus w m) \<and>
           exit_item (menus w' m) = exit_item (menus w m) \<and> only_menu m w w'"
proof -
  let ?w1 = "w\<lparr>keys := ks\<rparr>"
  have l1: "in_loop m ?w1" using assms(1) by (simp add: in_loop_keys)
  have s: "stdscr w" using assms(1) by (simp add: in_loop_def)
  have moved: "\<exists>w'. and_then_o (Some (go_to m c ?w1)) (\<lambda>_ w2. Some (Returns k, w2)) = Some (Returns k, w') \<and>
      keys w' = ks \<and> in_loop m w' \<and> items (menus w' m) = items (menus w m) \<and>
      exit_item (menus w' m) = exit_item (menus w m) \<and> only_menu m w w'" for c
  proof -
    have r: "fst (go_to m c ?w1) = Returns ()"
      using l1 by (simp add: go_to_returns in_loop_def)
    have "only_menu m w (snd (go_to m c ?w1))"
      by (rule only_menu_trans[OF only_menu_keys only_menu_go_to])
    then show ?thesis
      using r in_loop_go_to[OF l1, of c]
      by (simp add: and_then_o_Some_const go_to_keys go_to_fields)
  qed
  have ks: "k \<noteq> KEY_RIGHT" "k \<noteq> KEY_LEFT" "k \<noteq> KEY_RESIZE" "k \<noteq> ord_newline"
    using assms(3) by (simp_all add: cursor_key_def)
  have unf: "process_user_input_with loop m w =
      and_then_o
        (if ord_1 \<le> k \<and> k \<le> (if int (length (items (menus w m))) \<ge> 9 then ord_9
                                  else ord_0 + int (length (items (menus w m))))
         then Some (go_to m (k - ord_0 - 1) ?w1)
         else if k = KEY_DOWN then Some (go_down m ?w1)
         else if k = KEY_UP then Some (go_up m ?w1)
         else Some (Returns (), ?w1))
        (\<lambda>_ w2. Some (Returns k, w2))"
    by (simp only: process_user_input_with_key[OF s assms(2)] ks if_False)
  show ?thesis
  proof (cases "ord_1 \<le> k \<and> k \<le> (if int (length (items (menus w m))) \<ge> 9 then ord_9
                                  else ord_0 + int (length (items (menus w m))))")
    case True
    show ?thesis unfolding unf if_P[OF True] by (rule moved)
  next
    case n1: False
    show ?thesis
    proof (cases "k = KEY_DOWN")
      case True
      show ?thesis unfolding unf if_not_P[OF n1] if_P[OF True] go_down_as_go_to by (rule moved)
    next
      case n2: False
      show ?thesis
      proof (cases "k = KEY_UP")
        case True
        show ?thesis unfolding unf if_not_P[OF n1] if_not_P[OF n2] if_P[OF True] go_up_as_go_to
          by (rule moved)
      next
        case False
        have "process_user_input_with loop m w = Some (Returns k, ?w1)"
          unfolding unf if_not_P[OF n1] if_not_P[OF n2] if_not_P[OF False]
          by (simp add: and_then_o_def)
        then show ?thesis using l1 by (simp add: only_menu_keys)
      qed
    qed
  qed
qed


lemma main_loop_while_done:
  "should_exit (menus w m) \<Longrightarrow> main_loop_while n m w = Some (Returns (), w)"
  by (cases n) simp_all

lemma cursor_keys_loop:
  assumes "in_loop m w" and "keys w = navs @ rest" and "\<forall>k\<in>set navs. cursor_key k"
  shows "\<exists>w'. main_loop_while (length navs + n) m w = main_loop_while n m w' \<and>
           keys w' = rest \<and> in_loop m w' \<and> items (menus w' m) = items (menus w m) \<and>
           exit_item (menus w' m) = exit_item (menus w m) \<and> only_menu m w w'"
  using assms
proof (induction navs arbitrary: w)
  case Nil
  show ?case by (rule exI[of _ w]) (use Nil in \<open>simp add: only_menu_refl\<close>)
next
  case (Cons k navs)
  have ck: "cursor_key k" and rest: "\<forall>k\<in>set navs. cursor_key k" using Cons.prems(3) by simp_all
  have kw: "keys w = k # (navs @ rest)" using Cons.prems(2) by simp
  obtain w1 where step: "process_user_input_with (main_loop_while (length navs + n)) m w =
        Some (Returns k, w1)"
    and w1: "keys w1 = navs @ rest" "in_loop m w1" "items (menus w1 m) = items (menus w m)"
      "exit_item (menus w1 m) = exit_item (menus w m)" "only_menu m w w1"
    using cursor_key_step[OF Cons.prems(1) kw ck, of "main_loop_while (length navs + n)"] by blast
  have cond: "running (menus w m) \<and> \<not> should_exit (menus w m)"
    using Cons.prems(1) by (simp add: in_loop_def)
  have unf: "main_loop_while (length (k # navs) + n) m w = main_loop_while (length navs + n) m w1"
    using cond step by (simp add: and_then_o_def)
  obtain w2 where w2: "main_loop_while (length navs + n) m w1 = main_loop_while n m w2"
      "keys w2 = rest" "in_loop m w2" "items (menus w2 m) = items (menus w1 m)"
      "exit_item (menus w2 m) = exit_item (menus w1 m)" "only_menu m w1 w2"
    using Cons.IH[OF w1(2) w1(1) rest] by blast
  have A: "main_loop_while (length (k # navs) + n) m w = main_loop_while n m w2"
    by (rule trans[OF unf w2(1)])
  have B: "items (menus w2 m) = items (menus w m)" "exit_item (menus w2 m) = exit_item (menus w m)"
    using w1 w2 by simp_all
  have C: "only_menu m w w2" by (rule only_menu_trans[OF w1(5) w2(6)])
  show ?case using A w2(2,3) B C by blast
qed

lemma selected_item_attr_at:
  assumes "items (menus w m) \<noteq> []" and "selected_option (menus w m) \<noteq> - 1"
    and "0 \<le> current_option (menus w m)"
    and "current_option (menus w m) < int (length (items (menus w m)))"
  shows "selected_item_attr m w = (Returns (items (menus w m) ! nat (current_option (menus w m))), w)"
  using assms by (simp add: selected_item_attr_def selected_item_def py_index_def)

lemma and_then_o_Some_Returns [simp]: "and_then_o (Some (Returns x, w)) f = f x w"
  by (simp add: and_then_o_def)

lemma and_then_o_Some_Raises [simp]: "and_then_o (Some (Raises e, w)) f = Some (Raises e, w)"
  by (simp add: and_then_o_def)

text \<open>Selecting the exit entry, the cursor being on it as the last entry.\<close>

lemma select_with_exit_entry:
  assumes ne: "items (menus w m) \<noteq> []"
    and cur: "current_option (menus w m) = int (length (items (menus w m))) - 1"
    and lst: "last (items (menus w m)) = e"
    and e: "cls (objs w e) = ExitItem" "item_should_exit (objs w e)" "menu (objs w e) = Some m'"
  shows "\<exists>w'. select_with loop m w = Some (Returns (), w') \<and> keys w' = keys w \<and>
           should_exit (menus w' m) \<and> screen (menus w' m) = screen (menus w m) \<and>
           stdscr w' = stdscr w \<and> items (menus w' m) = items (menus w m) \<and> only_menu m w w'"
proof -
  define w1 where "w1 = upd_menu m (\<lambda>j. j\<lparr>selected_option := current_option j\<rparr>) w"
  define v where "v = returned_value (menus w1 m')"
  define w6 where "w6 = upd_menu m (\<lambda>j. j\<lparr>returned_value := v\<rparr>) w1"
  define w7 where "w7 = upd_menu m (\<lambda>j. j\<lparr>should_exit := True\<rparr>) w6"
  have len: "0 < length (items (menus w m))" using ne by simp
  have at: "items (menus w m) ! nat (int (length (items (menus w m))) - 1) = e"
    using ne lst by (simp add: last_conv_nth nat_diff_distrib')
  have s1: "selected_item_attr m w1 = (Returns e, w1)"
    using selected_item_attr_at[of w1 m] ne cur len at by (simp add: w1_def)
  have s6: "selected_item_attr m w6 = (Returns e, w6)"
    using selected_item_attr_at[of w6 m] ne cur len at by (simp add: w6_def w1_def)
  have e1: "cls (objs w1 e) = ExitItem" "menu (objs w1 e) = Some m'"
    "item_should_exit (objs w6 e)"
    using e by (simp_all add: w1_def w6_def)
  have su: "item_set_up e w1 = (Returns (), w1)" "item_clean_up e w1 = (Returns (), w1)"
    "item_action_with loop e w1 = Some (Returns (), w1)"
    "item_get_return e w1 = (Returns v, w1)"
    using e1 by (simp_all add: item_set_up_def item_clean_up_def item_action_with_def
        item_get_return_def MenuItem_get_return_def v_def)
  have "select_with loop m w = Some (Returns (), w7)"
    unfolding select_with_def w1_def[symmetric]
    by (simp add: s1 su w6_def[symmetric] s6 e1 w7_def[symmetric] Let_def)
  moreover have "only_menu m w w7"
  proof -
    have o1: "only_menu m w w1" unfolding w1_def by (rule only_menu_upd_menu)
    have o6: "only_menu m w1 w6" unfolding w6_def by (rule only_menu_upd_menu)
    have o7: "only_menu m w6 w7" unfolding w7_def by (rule only_menu_upd_menu)
    show ?thesis by (rule only_menu_trans[OF only_menu_trans[OF o1 o6] o7])
  qed
  moreover have "keys w7 = keys w" "should_exit (menus w7 m)"
    "screen (menus w7 m) = screen (menus w m)" "stdscr w7 = stdscr w"
    "items (menus w7 m) = items (menus w m)"
    by (simp_all add: w7_def w6_def w1_def)
  ultimately show ?thesis by blast
qed

lemma KEY_LEFT_not_other:
  "\<not> (ord_1 \<le> KEY_LEFT \<and> KEY_LEFT \<le> (if int n \<ge> 9 then ord_9 else ord_0 + int n))"
  "KEY_LEFT \<noteq> KEY_DOWN" "KEY_LEFT \<noteq> KEY_UP" "KEY_LEFT \<noteq> KEY_RIGHT"
  by (simp_all add: KEY_LEFT_def KEY_DOWN_def KEY_UP_def KEY_RIGHT_def ord_0_def ord_1_def ord_9_def)

lemma only_menu_objs:
  assumes "only_menu m w w'"
  shows "cls (objs w' j) = cls (objs w j)" "menu (objs w' j) = menu (objs w j)"
    "item_should_exit (objs w' j) = item_should_exit (objs w j)"
  using assms by (simp_all add: only_menu_def)

lemma only_menu_other: "only_menu m w w' \<Longrightarrow> k \<noteq> m \<Longrightarrow> menus w' k = menus w k"
  by (simp add: only_menu_def)

lemma only_menu_stdscr_kept: "only_menu m w w' \<Longrightarrow> stdscr w \<Longrightarrow> stdscr w'"
  by (simp add: only_menu_def)

text \<open>The left key on a menu whose last entry is its exit entry.\<close>

lemma exit_key_step:
  assumes l: "in_loop m w" and k: "keys w = KEY_LEFT # ks"
    and lst: "last (items (menus w m)) = e"
    and e: "cls (objs w e) = ExitItem" "item_should_exit (objs w e)" "menu (objs w e) = Some m'"
  shows "\<exists>w'. process_user_input_with loop m w = Some (Returns KEY_LEFT, w') \<and> keys w' = ks \<and>
           should_exit (menus w' m) \<and> screen (menus w' m) \<noteq> None \<and> stdscr w' \<and>
           only_menu m w w'"
proof -
  let ?w1 = "w\<lparr>keys := ks\<rparr>"
  let ?w2 = "upd_menu m (\<lambda>j. j\<lparr>current_option := int (length (items j)) - 1\<rparr>) ?w1"
  have s: "stdscr w" and scr: "screen (menus w m) \<noteq> None" and ne: "items (menus w m) \<noteq> []"
    using l by (simp_all add: in_loop_def)
  have unf: "process_user_input_with loop m w =
      and_then_o (select_with loop m ?w2) (\<lambda>_ w2. Some (Returns KEY_LEFT, w2))"
    by (simp only: process_user_input_with_key[OF s k] KEY_LEFT_not_other if_False if_True refl)
  have "\<exists>w'. select_with loop m ?w2 = Some (Returns (), w') \<and> keys w' = keys ?w2 \<and>
           should_exit (menus w' m) \<and> screen (menus w' m) = screen (menus ?w2 m) \<and>
           stdscr w' = stdscr ?w2 \<and> items (menus w' m) = items (menus ?w2 m) \<and> only_menu m ?w2 w'"
    by (rule select_with_exit_entry[where e = e and m' = m']) (use ne lst e in simp_all)
  then obtain w' where w': "select_with loop m ?w2 = Some (Returns (), w')" "keys w' = keys ?w2"
      "should_exit (menus w' m)" "screen (menus w' m) = screen (menus ?w2 m)"
      "stdscr w' = stdscr ?w2" "only_menu m ?w2 w'"
    by blast
  have o: "only_menu m w w'"
    by (rule only_menu_trans[OF only_menu_trans[OF only_menu_keys only_menu_upd_menu] w'(6)])
  have "process_user_input_with loop m w = Some (Returns KEY_LEFT, w')"
    by (simp add: unf w'(1))
  moreover have "keys w' = ks" "screen (menus w' m) \<noteq> None" "stdscr w'"
    using w'(2,4,5) s scr by simp_all
  ultimately show ?thesis using w'(3) o by blast
qed


text \<open>Cursor keys, then the left key: the loop ends.\<close>

lemma loop_until_exit:
  assumes l: "in_loop m w" and k: "keys w = navs @ KEY_LEFT # ks"
    and nav: "\<forall>k\<in>set navs. cursor_key k"
    and lst: "last (items (menus w m)) = e"
    and e: "cls (objs w e) = ExitItem" "item_should_exit (objs w e)" "menu (objs w e) = Some m'"
    and fuel: "length navs < n"
  shows "\<exists>w'. main_loop_while n m w = Some (Returns (), w') \<and> keys w' = ks \<and>
           should_exit (menus w' m) \<and> screen (menus w' m) \<noteq> None \<and> stdscr w' \<and>
           only_menu m w w'"
proof -
  define n' where "n' = n - Suc (length navs)"
  have n: "n = length navs + Suc n'" using fuel by (simp add: n'_def)
  obtain w1 where w1: "main_loop_while (length navs + Suc n') m w = main_loop_while (Suc n') m w1"
      "keys w1 = KEY_LEFT # ks" "in_loop m w1" "items (menus w1 m) = items (menus w m)"
      "only_menu m w w1"
    using cursor_keys_loop[OF l k nav, of "Suc n'"] by blast
  have e1: "cls (objs w1 e) = ExitItem" "item_should_exit (objs w1 e)" "menu (objs w1 e) = Some m'"
    using e only_menu_objs[OF w1(5)] by simp_all
  have lst1: "last (items (menus w1 m)) = e" using lst w1(4) by simp
  obtain w2 where w2: "process_user_input_with (main_loop_while n') m w1 = Some (Returns KEY_LEFT, w2)"
      "keys w2 = ks" "should_exit (menus w2 m)" "screen (menus w2 m) \<noteq> None" "stdscr w2"
      "only_menu m w1 w2"
    using exit_key_step[OF w1(3) w1(2) lst1 e1, of "main_loop_while n'"] by blast
  have cond: "running (menus w1 m) \<and> \<not> should_exit (menus w1 m)"
    using w1(3) by (simp add: in_loop_def)
  have "main_loop_while (Suc n') m w1 = Some (Returns (), w2)"
    using cond w2(1) main_loop_while_done[OF w2(3), of n'] by simp
  then have "main_loop_while n m w = Some (Returns (), w2)" using n w1(1) by simp
  then show ?thesis using w2(2-5) only_menu_trans[OF w1(5) w2(6)] by blast
qed


lemma only_menu_clear_screen: "only_menu m w (snd (clear_screen m w))"
  by (simp add: only_menu_def clear_screen_def Let_def split: option.splits)

lemma only_menu_clear_terminal: "only_menu m w (clear_terminal w)"
  by (simp add: only_menu_def clear_terminal_def)

lemma only_menu_add_exit: "only_menu m w (snd (add_exit m w))"
  by (simp add: only_menu_def add_exit_def)

text \<open>\<^verbatim>\<open>_main_loop\<close> on a menu with options reaches its \<^verbatim>\<open>while\<close> loop.\<close>

lemma main_loop_with_enter:
  assumes s: "stdscr w" and ne: "items (menus w m) \<noteq> []"
  shows "\<exists>w7. main_loop_with loop m scr w = loop m w7 \<and> stdscr w7 \<and>
           screen (menus w7 m) \<noteq> None \<and> running (menus w7 m) \<and>
           items (menus w7 m) = items (menus w m) \<and>
           should_exit (menus w7 m) = should_exit (menus w m) \<and>
           keys w7 = keys w \<and> only_menu m w w7"
proof -
  define w1 where "w1 = (if scr then w\<lparr>stdscr := True\<rparr> else w)"
  define w5 where "w5 = emit Stdscr_refresh (emit (Curs_set 0) (set_up_colors m
      (upd_menu m (\<lambda>j. j\<lparr>screen := Some (int (length (items (menus w1 m))) + 6, term_x j)\<rparr>)
         (emit (Newpad m (int (length (items (menus w1 m))) + 6) (snd (terminal w1)))
            (upd_menu m (\<lambda>j. j\<lparr>term_y := fst (terminal w1), term_x := snd (terminal w1)\<rparr>) w1)))))"
  define w7 where "w7 = upd_menu m (\<lambda>j. j\<lparr>running := True\<rparr>)
      ((snd (draw m w5))\<lparr>currently_active_menu := Some m\<rparr>)"
  have s1: "stdscr w1" and i1: "items (menus w1 m) = items (menus w m)"
    and k1: "keys w1 = keys w" and x1: "should_exit (menus w1 m) = should_exit (menus w m)"
    and o1: "only_menu m w w1"
    using s by (simp_all add: w1_def only_menu_def)
  have o5: "only_menu m w1 w5"
    by (simp add: only_menu_def w5_def set_up_colors_def)
  have f5: "stdscr w5" "screen (menus w5 m) \<noteq> None" "items (menus w5 m) = items (menus w m)"
    "keys w5 = keys w" "should_exit (menus w5 m) = should_exit (menus w m)"
    using s1 i1 k1 x1 by (simp_all add: w5_def set_up_colors_def)
  have d: "fst (draw m w5) = Returns ()" using f5 ne by (simp add: fst_draw)
  have unf: "main_loop_with loop m scr w =
      and_then_o (Some (draw m w5))
        (\<lambda>_ w6. loop m (upd_menu m (\<lambda>j. j\<lparr>running := True\<rparr>)
                          (w6\<lparr>currently_active_menu := Some m\<rparr>)))"
    using s1 by (simp add: main_loop_with_def Let_def case_prod_beta w1_def[symmetric] w5_def)
  have run: "main_loop_with loop m scr w = loop m w7"
    unfolding unf w7_def by (rule and_then_o_returns[OF d])
  have o7: "only_menu m w5 w7"
    unfolding w7_def
    by (rule only_menu_trans[OF only_menu_trans[OF only_menu_draw only_menu_active] only_menu_upd_menu])
  have f7: "stdscr w7" "screen (menus w7 m) \<noteq> None" "running (menus w7 m)"
    "items (menus w7 m) = items (menus w m)"
    "should_exit (menus w7 m) = should_exit (menus w m)" "keys w7 = keys w"
    using f5 by (simp_all add: w7_def)
  show ?thesis
    using run f7 only_menu_trans[OF only_menu_trans[OF o1 o5] o7] by blast
qed


text \<open>A menu is started, cursor keys are typed in it, then the left key; its last entry
  being its exit entry, \<^verbatim>\<open>_main_loop\<close> returns.\<close>

lemma main_loop_with_returns:
  assumes s: "stdscr w" and ne: "items (menus w m) \<noteq> []" and ns: "\<not> should_exit (menus w m)"
    and k: "keys w = navs @ KEY_LEFT # ks" and nav: "\<forall>k\<in>set navs. cursor_key k"
    and lst: "last (items (menus w m)) = e"
    and e: "cls (objs w e) = ExitItem" "item_should_exit (objs w e)" "menu (objs w e) = Some m'"
    and fuel: "length navs < n"
  shows "\<exists>w'. main_loop_with (main_loop_while n) m scr w = Some (Returns (), w') \<and> keys w' = ks \<and>
           should_exit (menus w' m) \<and>
           screen (menus w' m) \<noteq> None \<and> stdscr w' \<and> only_menu m w w'"
proof -
  obtain w7 where w7: "main_loop_with (main_loop_while n) m scr w = main_loop_while n m w7"
      "stdscr w7" "screen (menus w7 m) \<noteq> None" "running (menus w7 m)"
      "items (menus w7 m) = items (menus w m)"
      "should_exit (menus w7 m) = should_exit (menus w m)" "keys w7 = keys w" "only_menu m w w7"
    using main_loop_with_enter[OF s ne, of "main_loop_while n" scr] by blast
  have l7: "in_loop m w7" using w7 ne ns by (simp add: in_loop_def)
  have k7: "keys w7 = navs @ KEY_LEFT # ks" using w7(7) k by simp
  have lst7: "last (items (menus w7 m)) = e" using w7(5) lst by simp
  have e7: "cls (objs w7 e) = ExitItem" "item_should_exit (objs w7 e)" "menu (objs w7 e) = Some m'"
    using e only_menu_objs[OF w7(8)] by simp_all
  obtain w8 where w8: "main_loop_while n m w7 = Some (Returns (), w8)" "keys w8 = ks"
      "screen (menus w8 m) \<noteq> None" "stdscr w8" "should_exit (menus w8 m)" "only_menu m w7 w8"
    using loop_until_exit[OF l7 k7 nav lst7 e7 fuel] by blast
  show ?thesis
    using w7(1) w8(1-5) only_menu_trans[OF w7(8) w8(6)] by (intro exI[of _ w8]) simp
qed

lemma wrap_start_with_returns:
  assumes s: "stdscr w" and ne: "items (menus w m) \<noteq> []" and ns: "\<not> should_exit (menus w m)"
    and k: "keys w = navs @ KEY_LEFT # ks" and nav: "\<forall>k\<in>set navs. cursor_key k"
    and lst: "last (items (menus w m)) = e"
    and e: "cls (objs w e) = ExitItem" "item_should_exit (objs w e)" "menu (objs w e) = Some m'"
    and fuel: "length navs < n"
  shows "\<exists>w'. wrap_start_with (main_loop_while n) m w = Some (Returns (), w') \<and> keys w' = ks \<and>
           should_exit (menus w' m) \<and> stdscr w' \<and> only_menu m w w'"
proof -
  have "\<exists>w9. (case parent (menus w m) of
          None \<Rightarrow>
            (case main_loop_with (main_loop_while n) m True (emit Initscr w) of
               None \<Rightarrow> None
             | Some (r, w1) \<Rightarrow> Some (r, emit Endwin w1))
        | Some p \<Rightarrow> main_loop_with (main_loop_while n) m False w) = Some (Returns (), w9) \<and>
        keys w9 = ks \<and> should_exit (menus w9 m) \<and> screen (menus w9 m) \<noteq> None \<and>
        stdscr w9 \<and> only_menu m w w9"
  proof (cases "parent (menus w m)")
    case None
    obtain w8 where w8: "main_loop_with (main_loop_while n) m True (emit Initscr w) = Some (Returns (), w8)"
        "keys w8 = ks" "screen (menus w8 m) \<noteq> None" "stdscr w8" "only_menu m (emit Initscr w) w8"
        "should_exit (menus w8 m)"
      using main_loop_with_returns[of "emit Initscr w" m navs ks e m' n True] s ne ns k nav lst e fuel
      by auto
    have "only_menu m w (emit Endwin w8)"
      by (rule only_menu_trans[OF only_menu_trans[OF only_menu_emit w8(5)] only_menu_emit])
    then show ?thesis using None w8 by (intro exI[of _ "emit Endwin w8"]) simp
  next
    case (Some p)
    then show ?thesis
      using main_loop_with_returns[OF s ne ns k nav lst e fuel, of False] by simp
  qed
  then obtain w9 where w9: "(case parent (menus w m) of
          None \<Rightarrow>
            (case main_loop_with (main_loop_while n) m True (emit Initscr w) of
               None \<Rightarrow> None
             | Some (r, w1) \<Rightarrow> Some (r, emit Endwin w1))
        | Some p \<Rightarrow> main_loop_with (main_loop_while n) m False w) = Some (Returns (), w9)"
      "keys w9 = ks" "screen (menus w9 m) \<noteq> None" "stdscr w9" "only_menu m w w9"
      "should_exit (menus w9 m)"
    by blast
  let ?wa = "w9\<lparr>currently_active_menu := None\<rparr>"
  let ?wb = "?wa\<lparr>calls := calls ?wa @ [Pad_clear m, Stdscr_erase, Stdscr_refresh]\<rparr>"
  let ?wc = "clear_terminal ?wb"
  let ?wd = "?wc\<lparr>currently_active_menu := previous_active_menu (menus ?wc m)\<rparr>"
  have cs: "clear_screen m ?wa = (Returns (), ?wb)"
    using w9(3,4) by (simp add: clear_screen_ok)
  have run: "wrap_start_with (main_loop_while n) m w = Some (Returns (), ?wd)"
    unfolding wrap_start_with_def w9(1) by (simp add: cs Let_def)
  have o: "only_menu m w9 ?wd"
    by (simp add: only_menu_def clear_terminal_def)
  have "keys ?wd = ks" "stdscr ?wd" "should_exit (menus ?wd m)"
    using w9(2,4,6) by (simp_all add: clear_terminal_def)
  then show ?thesis using run only_menu_trans[OF w9(5) o] by blast
qed

lemma start_with_returns:
  assumes s: "stdscr w" and ne: "items (menus w m) \<noteq> []" and sh: "show_exit_option (menus w m)"
    and k: "keys w = navs @ KEY_LEFT # ks" and nav: "\<forall>k\<in>set navs. cursor_key k"
    and e: "cls (objs w (exit_item (menus w m))) = ExitItem"
      "item_should_exit (objs w (exit_item (menus w m)))"
      "menu (objs w (exit_item (menus w m))) = Some m'"
    and fuel: "length navs < n"
  shows "\<exists>w'. start_with (main_loop_while n) m None w = Some (Returns (), w') \<and> keys w' = ks \<and>
           should_exit (menus w' m) \<and> stdscr w' \<and> only_menu m w w'"
proof -
  define w3 where "w3 = upd_menu m (\<lambda>j. j\<lparr>current_option := 0, should_exit := False\<rparr>)
      ((upd_menu m (\<lambda>j. j\<lparr>previous_active_menu := currently_active_menu w\<rparr>) w)
         \<lparr>currently_active_menu := None\<rparr>)"
  define w4 where "w4 = snd (add_exit m w3)"
  have st: "start_with (main_loop_while n) m None w = wrap_start_with (main_loop_while n) m w4"
    using sh by (simp add: start_with_def Let_def w3_def[symmetric] w4_def)
  have o3: "only_menu m w w3" by (simp add: only_menu_def w3_def)
  have o4: "only_menu m w w4"
    unfolding w4_def by (rule only_menu_trans[OF o3 only_menu_add_exit])
  have f4: "stdscr w4" "items (menus w4 m) \<noteq> []" "\<not> should_exit (menus w4 m)"
    "keys w4 = navs @ KEY_LEFT # ks" "last (items (menus w4 m)) = exit_item (menus w m)"
    using s ne k by (simp_all add: w4_def w3_def add_exit_def)
  have e4: "cls (objs w4 (exit_item (menus w m))) = ExitItem"
    "item_should_exit (objs w4 (exit_item (menus w m)))"
    "menu (objs w4 (exit_item (menus w m))) = Some m'"
    using e only_menu_objs[OF o4] by simp_all
  obtain w' where w': "wrap_start_with (main_loop_while n) m w4 = Some (Returns (), w')"
      "keys w' = ks" "stdscr w'" "should_exit (menus w' m)" "only_menu m w4 w'"
    using wrap_start_with_returns[OF f4(1,2,3,4) nav f4(5) e4 fuel] by blast
  show ?thesis using st w'(1-4) only_menu_trans[OF o4 w'(5)] by (intro exI[of _ w']) simp
qed


text \<open>
  C6.  Menu \<open>P\<close> is on screen with its cursor on a \<^verbatim>\<open>SubmenuItem\<close> whose submenu is another
  menu \<open>C\<close>, which has options and its exit entry enabled.  \<^verbatim>\<open>select\<close> on \<open>P\<close> records the
  cursor as the selected index and starts \<open>C\<close>; the keys that follow are read by the loop of
  \<open>C\<close>: any keys that move its cursor or are ignored, then the left key, which selects the
  last entry, the exit entry of \<open>C\<close>.  Then the loop of \<open>C\<close> ends and \<^verbatim>\<open>start\<close> returns (with
  fuel for one iteration per key), leaving the next key unread and the whole of \<open>P\<close> as it
  was; and \<^verbatim>\<open>select\<close> on \<open>P\<close> returns with the cursor and the selected index of \<open>P\<close> on the
  index the cursor had at the descent.
\<close>

theorem submenu_descent_returns_to_parent:
  assumes distinct: "P \<noteq> C"
    and cur: "0 \<le> current_option (menus w P)"
      "current_option (menus w P) < int (length (items (menus w P)))"
    and at: "items (menus w P) ! nat (current_option (menus w P)) = i"
    and i: "cls (objs w i) = SubmenuItem (Some C)" "menu (objs w i) = Some P"
    and on: "screen (menus w P) \<noteq> None" "stdscr w"
    and child: "items (menus w C) \<noteq> []" "show_exit_option (menus w C)"
    and e: "cls (objs w (exit_item (menus w C))) = ExitItem"
      "item_should_exit (objs w (exit_item (menus w C)))"
      "menu (objs w (exit_item (menus w C))) = Some C"
    and k: "keys w = navs @ KEY_LEFT # ks"
    and nav: "\<forall>k\<in>set navs. k \<notin> {KEY_RIGHT, KEY_LEFT, KEY_RESIZE, ord_newline}"
    and fuel: "length navs < n"
  shows "(\<exists>w'. start n C None w = Some (Returns (), w') \<and> keys w' = ks \<and>
            should_exit (menus w' C) \<and> menus w' P = menus w P) \<and>
         (\<exists>w'. select n P w = Some (Returns (), w') \<and> keys w' = ks \<and>
            should_exit (menus w' C) \<and>
            current_option (menus w' P) = current_option (menus w P) \<and>
            selected_option (menus w' P) = current_option (menus w P))"
proof -
  define c where "c = current_option (menus w P)"
  define w1 where "w1 = upd_menu P (\<lambda>j. j\<lparr>selected_option := current_option j\<rparr>) w"
  define w2 where "w2 = (emit Def_prog_mode w1)
      \<lparr>calls := calls (emit Def_prog_mode w1) @ [Pad_clear P, Stdscr_erase, Stdscr_refresh]\<rparr>"
  have ne: "items (menus w P) \<noteq> []" using cur by auto
  have nav': "\<forall>k\<in>set navs. cursor_key k" using nav by (simp add: cursor_key_def)
  text \<open>The parent's part before the descent.\<close>
  have s1: "selected_item_attr P w1 = (Returns i, w1)"
    using selected_item_attr_at[of w1 P] ne cur at by (simp add: w1_def)
  have su: "item_set_up i w1 = (Returns (), w2)"
    using i on
    by (simp add: item_set_up_def SubmenuItem_set_up_def menu_clear_screen_def w1_def w2_def
          clear_screen_ok)
  have p2: "menus w2 P = (menus w P)\<lparr>selected_option := c\<rparr>" and o2: "objs w2 = objs w"
    and c2: "menus w2 C = menus w C" and f2: "stdscr w2" "keys w2 = navs @ KEY_LEFT # ks"
    using distinct on(2) k by (simp_all add: w2_def w1_def c_def)
  have s2: "selected_item_attr P w2 = (Returns i, w2)"
    using selected_item_attr_at[of w2 P] ne cur at by (simp add: p2 c_def)
  text \<open>The descent: the child's loop reads the keys and returns.\<close>
  obtain w3 where w3: "start_with (main_loop_while n) C None w2 = Some (Returns (), w3)"
      "keys w3 = ks" "should_exit (menus w3 C)" "stdscr w3" "only_menu C w2 w3"
    using start_with_returns[of w2 C navs ks C n] f2 child e nav' fuel by (auto simp: c2 o2)
  have act: "item_action_with (main_loop_while n) i w2 = Some (Returns (), w3)"
    using i w3(1) by (simp add: item_action_with_def o2)
  have p3: "menus w3 P = (menus w P)\<lparr>selected_option := c\<rparr>"
    using only_menu_other[OF w3(5) distinct] p2 by simp
  have i3: "cls (objs w3 i) = SubmenuItem (Some C)" "menu (objs w3 i) = Some P"
    using i only_menu_objs[OF w3(5)] by (simp_all add: o2)
  text \<open>The parent's part after the return.\<close>
  define w4 where "w4 = emit (Curs_set 0) (emit (Curs_set 1) (emit Reset_prog_mode
      (w3\<lparr>calls := calls w3 @ [Pad_clear P, Stdscr_erase, Stdscr_refresh]\<rparr>)))"
  define w6 where "w6 = upd_menu P (\<lambda>j. j\<lparr>returned_value := returned_value (menus w4 C)\<rparr>) w4"
  define w7 where "w7 = upd_menu P (\<lambda>j. j\<lparr>should_exit := item_should_exit (objs w6 i)\<rparr>) w6"
  have s3: "selected_item_attr P w3 = (Returns i, w3)"
    using selected_item_attr_at[of w3 P] ne cur at by (simp add: p3 c_def)
  have cu: "item_clean_up i w3 = (Returns (), w4)"
    using i3 on(1) w3(4)
    by (simp add: item_clean_up_def SubmenuItem_clean_up_def menu_clear_screen_def p3
          clear_screen_ok and_then_def w4_def)
  have p4: "menus w4 = menus w3" "objs w4 = objs w3" "keys w4 = ks" "stdscr w4"
    using w3(2,4) by (simp_all add: w4_def)
  have s4: "selected_item_attr P w4 = (Returns i, w4)"
    using selected_item_attr_at[of w4 P] ne cur at by (simp add: p4 p3 c_def)
  have gr: "item_get_return i w4 = (Returns (returned_value (menus w4 C)), w4)"
    using i3 by (simp add: item_get_return_def p4)
  have s6: "selected_item_attr P w6 = (Returns i, w6)"
    using selected_item_attr_at[of w6 P] ne cur at by (simp add: w6_def p4 p3 c_def)
  have f7: "keys w7 = ks" "should_exit (menus w7 C)" "current_option (menus w7 P) = c"
    "selected_option (menus w7 P) = c" "screen (menus w7 P) \<noteq> None" "stdscr w7"
    "items (menus w7 P) \<noteq> []"
    using distinct w3(3) on(1) ne by (simp_all add: w7_def w6_def p4 p3 c_def)
  have "select n P w =
      (let w7 = upd_menu P (\<lambda>j. j\<lparr>should_exit := item_should_exit (objs w6 i)\<rparr>) w6
       in if \<not> should_exit (menus w7 P) then Some (draw P w7) else Some (Returns (), w7))"
    unfolding select_def select_with_def w1_def[symmetric]
    by (simp only: s1 su s2 act s3 cu s4 gr w6_def[symmetric] s6 and_then_o_Some_Returns)
  then have run: "select n P w =
      (if \<not> should_exit (menus w7 P) then Some (draw P w7) else Some (Returns (), w7))"
    unfolding Let_def w7_def[symmetric] .
  have sel: "\<exists>w'. select n P w = Some (Returns (), w') \<and> keys w' = ks \<and>
            should_exit (menus w' C) \<and>
            current_option (menus w' P) = current_option (menus w P) \<and>
            selected_option (menus w' P) = current_option (menus w P)"
  proof (cases "should_exit (menus w7 P)")
    case True
    then have "select n P w = Some (Returns (), w7)" using run by simp
    then show ?thesis using f7 by (simp add: c_def)
  next
    case False
    have d: "fst (draw P w7) = Returns ()" using f7 by (simp add: fst_draw)
    have "select n P w = Some (Returns (), snd (draw P w7))"
      using run False d by (cases "draw P w7") simp
    moreover have "menus (snd (draw P w7)) C = menus w7 C"
      using distinct by (simp add: menus_draw)
    ultimately show ?thesis using f7 by (simp add: c_def)
  qed
  text \<open>The descent alone, from the state before \<^verbatim>\<open>select\<close>.\<close>
  obtain v where v: "start_with (main_loop_while n) C None w = Some (Returns (), v)"
      "keys v = ks" "should_exit (menus v C)" "only_menu C w v"
    using start_with_returns[OF on(2) child k nav' e fuel] by blast
  have "start n C None w = Some (Returns (), v) \<and> keys v = ks \<and> should_exit (menus v C) \<and>
      menus v P = menus w P"
    using v only_menu_other[OF v(4) distinct] by (simp add: start_def)
  then have "\<exists>w'. start n C None w = Some (Returns (), w') \<and> keys w' = ks \<and>
      should_exit (menus w' C) \<and> menus w' P = menus w P"
    by (rule exI)
  then show ?thesis using sel by (rule conjI)
qed

lemma submenu_world_simps:
  "items (menus submenu_world 0) = [2, 0]" "current_option (menus submenu_world 0) = 0"
  "cls (objs submenu_world 2) = SubmenuItem (Some 1)" "menu (objs submenu_world 2) = Some 0"
  "screen (menus submenu_world 0) = Some (8, 80)" "stdscr submenu_world"
  "items (menus submenu_world 1) = [3]" "show_exit_option (menus submenu_world 1)"
  "exit_item (menus submenu_world 1) = 1"
  "cls (objs submenu_world 1) = ExitItem" "item_should_exit (objs submenu_world 1)"
  "menu (objs submenu_world 1) = Some 1" "parent (menus submenu_world 1) = Some 0"
  "keys submenu_world = [KEY_DOWN, KEY_LEFT, 113]"
  "selected_option (menus submenu_world 0) = - 1"
  by (simp_all add: submenu_world_def build_defs upd_menu_def)

theorem submenu_descent_returns_to_parent_witness:
  "items (menus submenu_world 0) ! nat (current_option (menus submenu_world 0)) = 2 \<and>
   cls (objs submenu_world 2) = SubmenuItem (Some 1) \<and>
   keys submenu_world = [KEY_DOWN] @ KEY_LEFT # [113] \<and>
   selected_option (menus submenu_world 0) = - 1 \<and>
   (\<exists>w'. start 2 1 None submenu_world = Some (Returns (), w') \<and> keys w' = [113] \<and>
      should_exit (menus w' 1) \<and> menus w' 0 = menus submenu_world 0) \<and>
   (\<exists>w'. select 2 0 submenu_world = Some (Returns (), w') \<and> keys w' = [113] \<and>
      should_exit (menus w' 1) \<and> current_option (menus w' 0) = 0 \<and>
      selected_option (menus w' 0) = 0)"
  using submenu_descent_returns_to_parent[of 0 1 submenu_world 2 "[KEY_DOWN]" "[113]" 2]
  by (simp add: submenu_world_simps submenu_world_simps[unfolded One_nat_def]
        KEY_DOWN_def KEY_LEFT_def KEY_RIGHT_def KEY_RESIZE_def ord_newline_def)

end
